theory Spec2Isabelle
  imports Complex_Main
begin

section \<open>Doubles\<close>

text \<open>
  The synchronisation code computes on C \<open>double\<close>s. A double is modelled as either NaN or
  a real number: NaN propagates through arithmetic and makes every ordered comparison false,
  as in IEEE 754, and finite arithmetic is taken exact (rounding and the infinities are not
  modelled). \<open>isnan\<close> and \<open>fabs\<close> are the libm functions the code calls.
\<close>

datatype double = NaN | Val real

fun isnan :: "double \<Rightarrow> bool" where
  "isnan NaN = True"
| "isnan (Val _) = False"

fun fabs :: "double \<Rightarrow> double" where
  "fabs NaN = NaN"
| "fabs (Val x) = Val \<bar>x\<bar>"

fun d_neg :: "double \<Rightarrow> double" where
  "d_neg NaN = NaN"
| "d_neg (Val x) = Val (- x)"

fun d_add :: "double \<Rightarrow> double \<Rightarrow> double" where
  "d_add (Val x) (Val y) = Val (x + y)"
| "d_add _ _ = NaN"

fun d_sub :: "double \<Rightarrow> double \<Rightarrow> double" where
  "d_sub (Val x) (Val y) = Val (x - y)"
| "d_sub _ _ = NaN"

fun d_mul :: "double \<Rightarrow> double \<Rightarrow> double" where
  "d_mul (Val x) (Val y) = Val (x * y)"
| "d_mul _ _ = NaN"

text \<open>Division by zero has no finite value; the model gives NaN there.\<close>

fun d_div :: "double \<Rightarrow> double \<Rightarrow> double" where
  "d_div (Val x) (Val y) = (if y = 0 then NaN else Val (x / y))"
| "d_div _ _ = NaN"

fun d_lt :: "double \<Rightarrow> double \<Rightarrow> bool" where
  "d_lt (Val x) (Val y) = (x < y)"
| "d_lt _ _ = False"

fun d_le :: "double \<Rightarrow> double \<Rightarrow> bool" where
  "d_le (Val x) (Val y) = (x \<le> y)"
| "d_le _ _ = False"

fun d_gt :: "double \<Rightarrow> double \<Rightarrow> bool" where
  "d_gt (Val x) (Val y) = (x > y)"
| "d_gt _ _ = False"

fun d_ge :: "double \<Rightarrow> double \<Rightarrow> bool" where
  "d_ge (Val x) (Val y) = (x \<ge> y)"
| "d_ge _ _ = False"

text \<open>\<open>a != b\<close> on doubles: true when either side is NaN.\<close>

fun d_ne :: "double \<Rightarrow> double \<Rightarrow> bool" where
  "d_ne (Val x) (Val y) = (x \<noteq> y)"
| "d_ne _ _ = True"

text \<open>
  libavutil's macros: \<open>FFMAX(a,b) = ((a) > (b) ? (a) : (b))\<close> and
  \<open>FFMIN(a,b) = ((a) > (b) ? (b) : (a))\<close>.
\<close>

definition FFMAX :: "double \<Rightarrow> double \<Rightarrow> double" where
  "FFMAX a b = (if d_gt a b then a else b)"

definition FFMIN :: "double \<Rightarrow> double \<Rightarrow> double" where
  "FFMIN a b = (if d_gt a b then b else a)"

section \<open>Constants\<close>

definition AV_SYNC_THRESHOLD_MIN :: double where
  "AV_SYNC_THRESHOLD_MIN = Val 0.04"

definition AV_SYNC_THRESHOLD_MAX :: double where
  "AV_SYNC_THRESHOLD_MAX = Val 0.1"

definition AV_SYNC_FRAMEDUP_THRESHOLD :: double where
  "AV_SYNC_FRAMEDUP_THRESHOLD = Val 0.1"

definition AV_NOSYNC_THRESHOLD :: double where
  "AV_NOSYNC_THRESHOLD = Val 10.0"

definition EXTERNAL_CLOCK_MIN_FRAMES :: nat where
  "EXTERNAL_CLOCK_MIN_FRAMES = 2"

definition EXTERNAL_CLOCK_MAX_FRAMES :: nat where
  "EXTERNAL_CLOCK_MAX_FRAMES = 10"

definition SAMPLE_CORRECTION_PERCENT_MAX :: int where
  "SAMPLE_CORRECTION_PERCENT_MAX = 10"

definition EXTERNAL_CLOCK_SPEED_MIN :: double where
  "EXTERNAL_CLOCK_SPEED_MIN = Val 0.900"

definition EXTERNAL_CLOCK_SPEED_MAX :: double where
  "EXTERNAL_CLOCK_SPEED_MAX = Val 1.010"

definition EXTERNAL_CLOCK_SPEED_STEP :: double where
  "EXTERNAL_CLOCK_SPEED_STEP = Val 0.001"

definition AUDIO_DIFF_AVG_NB :: int where
  "AUDIO_DIFF_AVG_NB = 20"

section \<open>The synchronisation state of \<open>core/video_state.cpp\<close>\<close>

text \<open>
  \<open>core/video_state.cpp\<close> names three master sync types. The fields of the state are the
  members the synchronisation functions read and write; a clock field holds the value the
  stream engine's \<open>GetClock()\<close> returns at the call, \<open>video_st\<close> and \<open>audio_st\<close> say whether
  the stream pointer is non-null, and the \<open>nb_packets\<close> fields are the packet queues'
  counts.
\<close>

datatype AvSyncType = AV_SYNC_AUDIO_MASTER | AV_SYNC_VIDEO_MASTER | AV_SYNC_EXTERNAL_CLOCK

record VideoState_core =
  av_sync_type :: AvSyncType
  video_st :: bool
  audio_st :: bool
  video_stream :: int
  audio_stream :: int
  video_clock :: double
  audio_clock :: double
  subtitle_clock :: double
  max_frame_duration :: double
  audio_diff_cum :: double
  audio_diff_avg_coef :: double
  audio_diff_threshold :: double
  audio_diff_avg_count :: int
  audio_src_freq :: int
  subtitle_speed :: double
  video_nb_packets :: nat
  audio_nb_packets :: nat

definition get_master_sync_type :: "VideoState_core \<Rightarrow> AvSyncType" where
  "get_master_sync_type vs =
     (if av_sync_type vs = AV_SYNC_VIDEO_MASTER then
        (if video_st vs then AV_SYNC_VIDEO_MASTER else AV_SYNC_AUDIO_MASTER)
      else if av_sync_type vs = AV_SYNC_AUDIO_MASTER then
        (if audio_st vs then AV_SYNC_AUDIO_MASTER else AV_SYNC_EXTERNAL_CLOCK)
      else AV_SYNC_EXTERNAL_CLOCK)"

definition get_master_clock :: "VideoState_core \<Rightarrow> double" where
  "get_master_clock vs =
     (case get_master_sync_type vs of
        AV_SYNC_VIDEO_MASTER \<Rightarrow> video_clock vs
      | AV_SYNC_AUDIO_MASTER \<Rightarrow> audio_clock vs
      | _ \<Rightarrow> subtitle_clock vs)"

definition compute_target_delay :: "VideoState_core \<Rightarrow> double \<Rightarrow> double" where
  "compute_target_delay vs delay =
     (if get_master_sync_type vs \<noteq> AV_SYNC_VIDEO_MASTER then
        (let diff = d_sub (video_clock vs) (get_master_clock vs);
             sync_threshold = FFMAX AV_SYNC_THRESHOLD_MIN (FFMIN AV_SYNC_THRESHOLD_MAX delay)
         in if \<not> isnan diff \<and> d_lt (fabs diff) (max_frame_duration vs) then
              (if d_le diff (d_neg sync_threshold) then FFMAX (Val 0) (d_add delay diff)
               else if d_ge diff sync_threshold \<and> d_gt delay AV_SYNC_FRAMEDUP_THRESHOLD then
                 d_add delay diff
               else if d_ge diff sync_threshold then d_mul (Val 2) delay
               else delay)
            else delay)
      else delay)"

section \<open>The synchronisation state of \<open>video_state.cpp\<close>\<close>

text \<open>
  \<open>video_state.cpp\<close> uses \<open>core::AvSyncType\<close> of \<open>core/types.h\<close>, which has two values.
  Its members end in an underscore, written here as a prime; the fields read through
  \<open>opt_\<close>, \<open>vstream_\<close>, \<open>astream_\<close> and \<open>viddec_\<close> are named after what is read.
\<close>

datatype core_AvSyncType = core_AV_SYNC_AUDIO_MASTER | core_AV_SYNC_VIDEO_MASTER

record VideoState =
  av_sync_type' :: core_AvSyncType
  framedrop' :: int
  vstream_clock' :: double
  astream_clock' :: double
  max_frame_duration' :: double
  audio_diff_cum' :: double
  audio_diff_avg_coef' :: double
  audio_diff_threshold' :: double
  audio_diff_avg_count' :: int
  audio_src_freq' :: int
  frame_last_filter_delay' :: double
  vstream_q2d' :: double
  viddec_pkt_serial' :: int
  vstream_serial' :: int
  video_nb_packets' :: nat
  frame_drops_early' :: int

definition GetMasterSyncType :: "VideoState \<Rightarrow> core_AvSyncType" where
  "GetMasterSyncType vs = av_sync_type' vs"

definition GetMasterClock :: "VideoState \<Rightarrow> double" where
  "GetMasterClock vs =
     (if GetMasterSyncType vs = core_AV_SYNC_VIDEO_MASTER then vstream_clock' vs
      else astream_clock' vs)"

definition ComputeTargetDelay :: "VideoState \<Rightarrow> double \<Rightarrow> double" where
  "ComputeTargetDelay vs delay =
     (if GetMasterSyncType vs \<noteq> core_AV_SYNC_VIDEO_MASTER then
        (let diff = d_sub (vstream_clock' vs) (GetMasterClock vs);
             sync_threshold = FFMAX AV_SYNC_THRESHOLD_MIN (FFMIN AV_SYNC_THRESHOLD_MAX delay)
         in if \<not> isnan diff \<and> d_lt (fabs diff) (max_frame_duration' vs) then
              (if d_le diff (d_neg sync_threshold) then FFMAX (Val 0) (d_add delay diff)
               else if d_ge diff sync_threshold \<and> d_gt delay AV_SYNC_FRAMEDUP_THRESHOLD then
                 d_add delay diff
               else if d_ge diff sync_threshold then d_mul (Val 2) delay
               else delay)
            else delay)
      else delay)"


section \<open>Integer helpers\<close>

text \<open>
  C's \<open>int\<close> is modelled by \<open>int\<close>; the theorems that depend on the arithmetic staying
  inside 32 bits say so (\<open>INT_MAX\<close>). \<open>c_div\<close> is C's integer division, which truncates
  toward zero; \<open>static_cast_int\<close> is the conversion of a double to \<open>int\<close>, which drops the
  fraction (for NaN the conversion is undefined in C++ and the callers exclude it; x86
  yields \<open>INT_MIN\<close>); \<open>av_clip\<close> is libavutil's.
\<close>

definition INT_MAX :: int where
  "INT_MAX = 2147483647"

definition c_div :: "int \<Rightarrow> int \<Rightarrow> int" where
  "c_div a b = sgn a * sgn b * (\<bar>a\<bar> div \<bar>b\<bar>)"

fun static_cast_int :: "double \<Rightarrow> int" where
  "static_cast_int (Val x) = (if 0 \<le> x then \<lfloor>x\<rfloor> else \<lceil>x\<rceil>)"
| "static_cast_int NaN = - 2147483648"

definition av_clip :: "int \<Rightarrow> int \<Rightarrow> int \<Rightarrow> int" where
  "av_clip a amin amax = (if a < amin then amin else if a > amax then amax else a)"

section \<open>Audio sample-count correction\<close>

text \<open>\<open>synchronize_audio\<close> of \<open>core/video_state.cpp\<close>: the wanted sample count and the
  state with the averaging filter updated.\<close>

definition synchronize_audio :: "VideoState_core \<Rightarrow> int \<Rightarrow> int \<times> VideoState_core" where
  "synchronize_audio vs nb_samples =
     (if get_master_sync_type vs \<noteq> AV_SYNC_AUDIO_MASTER then
        (let diff = d_sub (audio_clock vs) (get_master_clock vs)
         in if \<not> isnan diff \<and> d_lt (fabs diff) AV_NOSYNC_THRESHOLD then
              (let vs1 = vs\<lparr>audio_diff_cum :=
                           d_add diff (d_mul (audio_diff_avg_coef vs) (audio_diff_cum vs))\<rparr>
               in if audio_diff_avg_count vs1 < AUDIO_DIFF_AVG_NB then
                    (nb_samples, vs1\<lparr>audio_diff_avg_count := audio_diff_avg_count vs1 + 1\<rparr>)
                  else
                    (let avg_diff = d_mul (audio_diff_cum vs1)
                                      (d_sub (Val 1.0) (audio_diff_avg_coef vs1))
                     in if d_ge (fabs avg_diff) (audio_diff_threshold vs1) then
                          (let wanted_nb_samples = nb_samples +
                                 static_cast_int (d_mul diff (Val (of_int (audio_src_freq vs1))));
                               min_nb_samples =
                                 c_div (nb_samples * (100 - SAMPLE_CORRECTION_PERCENT_MAX)) 100;
                               max_nb_samples =
                                 c_div (nb_samples * (100 + SAMPLE_CORRECTION_PERCENT_MAX)) 100
                           in (av_clip wanted_nb_samples min_nb_samples max_nb_samples, vs1))
                        else (nb_samples, vs1)))
            else (nb_samples, vs\<lparr>audio_diff_avg_count := 0, audio_diff_cum := Val 0\<rparr>))
      else (nb_samples, vs))"

text \<open>\<open>SynchronizeAudio\<close> of \<open>video_state.cpp\<close>.\<close>

definition SynchronizeAudio :: "VideoState \<Rightarrow> int \<Rightarrow> int \<times> VideoState" where
  "SynchronizeAudio vs nb_samples =
     (if GetMasterSyncType vs \<noteq> core_AV_SYNC_AUDIO_MASTER then
        (let diff = d_sub (astream_clock' vs) (GetMasterClock vs)
         in if \<not> isnan diff \<and> d_lt (fabs diff) AV_NOSYNC_THRESHOLD then
              (let vs1 = vs\<lparr>audio_diff_cum' :=
                           d_add diff (d_mul (audio_diff_avg_coef' vs) (audio_diff_cum' vs))\<rparr>
               in if audio_diff_avg_count' vs1 < AUDIO_DIFF_AVG_NB then
                    (nb_samples, vs1\<lparr>audio_diff_avg_count' := audio_diff_avg_count' vs1 + 1\<rparr>)
                  else
                    (let avg_diff = d_mul (audio_diff_cum' vs1)
                                      (d_sub (Val 1.0) (audio_diff_avg_coef' vs1))
                     in if d_ge (fabs avg_diff) (audio_diff_threshold' vs1) then
                          (let wanted_nb_samples = nb_samples +
                                 static_cast_int (d_mul diff (Val (of_int (audio_src_freq' vs1))));
                               min_nb_samples =
                                 c_div (nb_samples * (100 - SAMPLE_CORRECTION_PERCENT_MAX)) 100;
                               max_nb_samples =
                                 c_div (nb_samples * (100 + SAMPLE_CORRECTION_PERCENT_MAX)) 100
                           in (av_clip wanted_nb_samples min_nb_samples max_nb_samples, vs1))
                        else (nb_samples, vs1)))
            else (nb_samples, vs\<lparr>audio_diff_avg_count' := 0, audio_diff_cum' := Val 0\<rparr>))
      else (nb_samples, vs))"

section \<open>External clock speed\<close>

text \<open>
  \<open>check_external_clock_speed\<close> of \<open>core/video_state.cpp\<close>. The external clock is the
  subtitle engine's; \<open>subtitle_speed\<close> is what its \<open>GetSpeed()\<close> returns and
  \<open>SetClockSpeed\<close> stores.
\<close>

definition check_external_clock_speed :: "VideoState_core \<Rightarrow> VideoState_core" where
  "check_external_clock_speed vs =
     (if (video_stream vs \<ge> 0 \<and> video_nb_packets vs \<le> EXTERNAL_CLOCK_MIN_FRAMES) \<or>
         (audio_stream vs \<ge> 0 \<and> audio_nb_packets vs \<le> EXTERNAL_CLOCK_MIN_FRAMES) then
        vs\<lparr>subtitle_speed :=
             FFMAX EXTERNAL_CLOCK_SPEED_MIN (d_sub (subtitle_speed vs) EXTERNAL_CLOCK_SPEED_STEP)\<rparr>
      else if (video_stream vs < 0 \<or> video_nb_packets vs > EXTERNAL_CLOCK_MAX_FRAMES) \<and>
              (audio_stream vs < 0 \<or> audio_nb_packets vs > EXTERNAL_CLOCK_MAX_FRAMES) then
        vs\<lparr>subtitle_speed :=
             FFMIN EXTERNAL_CLOCK_SPEED_MAX (d_add (subtitle_speed vs) EXTERNAL_CLOCK_SPEED_STEP)\<rparr>
      else
        (let speed = subtitle_speed vs
         in if d_ne speed (Val 1.0) then
              vs\<lparr>subtitle_speed :=
                   d_add speed
                     (d_div (d_mul EXTERNAL_CLOCK_SPEED_STEP (d_sub (Val 1.0) speed))
                        (fabs (d_sub (Val 1.0) speed)))\<rparr>
            else vs))"

section \<open>Frame durations\<close>

text \<open>A decoded frame: the fields the scheduler reads, and whether the frame has a texture
  (\<open>bmp\<close> is non-null).\<close>

record Frame =
  serial :: int
  pts :: double
  duration :: double
  pos :: int
  bmp :: bool

definition vp_duration :: "VideoState_core \<Rightarrow> Frame \<Rightarrow> Frame \<Rightarrow> double" where
  "vp_duration vs vp nextvp =
     (if serial vp = serial nextvp then
        (let duration' = d_sub (pts nextvp) (pts vp)
         in if isnan duration' \<or> d_le duration' (Val 0) \<or> d_gt duration' (max_frame_duration vs)
            then duration vp
            else duration')
      else Val 0.0)"

section \<open>Early frame drop\<close>

text \<open>
  \<open>GetVideoFrame\<close> of \<open>video_state.cpp\<close>. The arguments are what \<open>viddec_->DecodeFrame\<close>
  returned and the decoded frame's \<open>pts\<close>; the result is the returned \<open>got_picture\<close>,
  whether the frame was unreferenced, and the state with the drop counter. (The sample
  aspect ratio the function also stores in the frame plays no part in the decision.)
\<close>

definition AV_NOPTS_VALUE :: int where
  "AV_NOPTS_VALUE = - 9223372036854775808"

definition GetVideoFrame :: "VideoState \<Rightarrow> int \<Rightarrow> int \<Rightarrow> int \<times> bool \<times> VideoState" where
  "GetVideoFrame vs decoded frame_pts =
     (let got_picture = decoded
      in if got_picture < 0 then (- 1, False, vs)
         else if got_picture \<noteq> 0 then
           (let dpts = (if frame_pts \<noteq> AV_NOPTS_VALUE
                        then d_mul (vstream_q2d' vs) (Val (of_int frame_pts)) else NaN)
            in if framedrop' vs > 0 \<or>
                  (framedrop' vs \<noteq> 0 \<and> GetMasterSyncType vs \<noteq> core_AV_SYNC_VIDEO_MASTER) then
                 (if frame_pts \<noteq> AV_NOPTS_VALUE then
                    (let diff = d_sub dpts (GetMasterClock vs)
                     in if \<not> isnan diff \<and> d_lt (fabs diff) AV_NOSYNC_THRESHOLD \<and>
                           d_lt (d_sub diff (frame_last_filter_delay' vs)) (Val 0) \<and>
                           viddec_pkt_serial' vs = vstream_serial' vs \<and>
                           video_nb_packets' vs \<noteq> 0 then
                          (0, True, vs\<lparr>frame_drops_early' := frame_drops_early' vs + 1\<rparr>)
                        else (got_picture, False, vs))
                  else (got_picture, False, vs))
               else (got_picture, False, vs))
         else (got_picture, False, vs))"

section \<open>The frame queue\<close>

text \<open>
  Modelled from the spec: the frame queue, whose source is not under \<open>src/\<close>. It is the
  ring buffer of the specification's data model: \<open>capacity\<close> slots, a read index and the
  number \<open>fq_size\<close> of frames not yet consumed. \<open>peek\<close>, \<open>peek_next\<close> and \<open>peek_last\<close> read the
  current, the next and the previously shown frame; \<open>move_to_next\<close> advances the read index
  and decrements the size, and with \<open>keep_last\<close> the consumed frame stays addressable through
  \<open>peek_last\<close>: it is the slot before the read index. \<open>rindex_shown\<close> is what the code reads
  with \<open>rindexShown()\<close>: whether that slot holds a consumed frame. The code calls these
  operations \<open>peek\<close>, \<open>peek_next\<close>, \<open>peek_last\<close>, \<open>next\<close> and \<open>nb_remaining\<close> in
  \<open>core/video_state.cpp\<close>, and \<open>Peek\<close>, \<open>PeekNextOrNull\<close>, \<open>PeekLast\<close>, \<open>MoveToNext\<close> and
  \<open>IsEmpty\<close> in \<open>video_state.cpp\<close>.
\<close>

record FrameQueue =
  queue :: "Frame list"
  read_index :: nat
  fq_size :: nat
  capacity :: nat
  keep_last :: bool
  rindex_shown :: bool

definition peek :: "FrameQueue \<Rightarrow> Frame" where
  "peek f = queue f ! read_index f"

definition peek_next :: "FrameQueue \<Rightarrow> Frame" where
  "peek_next f = queue f ! ((read_index f + 1) mod capacity f)"

definition peek_last :: "FrameQueue \<Rightarrow> Frame" where
  "peek_last f = queue f ! ((read_index f + capacity f - 1) mod capacity f)"

definition move_to_next :: "FrameQueue \<Rightarrow> FrameQueue" where
  "move_to_next f =
     f\<lparr>read_index := (read_index f + 1) mod capacity f, fq_size := fq_size f - 1,
       rindex_shown := (rindex_shown f \<or> keep_last f)\<rparr>"

definition remaining_count :: "FrameQueue \<Rightarrow> nat" where
  "remaining_count f = fq_size f"

definition is_empty :: "FrameQueue \<Rightarrow> bool" where
  "is_empty f = (fq_size f = 0)"

text \<open>\<open>PeekNextOrNull\<close>: the next frame when there is one beyond the current frame.\<close>

definition PeekNextOrNull :: "FrameQueue \<Rightarrow> Frame option" where
  "PeekNextOrNull f = (if remaining_count f > 1 then Some (peek_next f) else None)"

section \<open>The video refresh step of \<open>core/video_state.cpp\<close>\<close>

text \<open>
  The state of the refresh step: the synchronisation state in \<open>sync\<close>, the members
  \<open>video_refresh\<close> reads and writes, the video frame queue \<open>pictq\<close> with the serial of the
  video packet queue, and what \<open>*remaining_time\<close> holds. \<open>gettime\<close> gives the successive
  readings of \<open>av_gettime_relative() / 1000000.0\<close> and \<open>nreads\<close> counts them. Two logs record
  what the step does to the outside: \<open>displayed\<close>, the frames \<open>video_image_display\<close> renders,
  and \<open>clock_sets\<close>, the calls of the video clock's \<open>SetClock\<close>. \<open>render_ok\<close> says that
  \<open>video_image_display\<close> does not return early on a failed texture upload.
\<close>

datatype ShowMode = SHOW_MODE_NONE | SHOW_MODE_VIDEO | SHOW_MODE_WAVES | SHOW_MODE_RDFT

datatype 'a jump = Goto_retry 'a | Goto_display 'a

record Player_core =
  sync :: VideoState_core
  paused :: bool
  step :: bool
  force_refresh :: bool
  realtime :: bool
  frame_timer :: double
  last_vis_time :: double
  rdftspeed :: double
  remaining_time :: double
  framedrop :: int
  display_disable :: bool
  show_mode :: ShowMode
  pictq :: FrameQueue
  video_pq_serial :: int
  video_last_updated :: double
  frame_drops_late :: int
  render_ok :: bool
  gettime :: "nat \<Rightarrow> double"
  nreads :: nat
  displayed :: "Frame list"
  clock_sets :: "(double \<times> int) list"

definition av_gettime_relative :: "Player_core \<Rightarrow> double \<times> Player_core" where
  "av_gettime_relative s = (gettime s (nreads s), s\<lparr>nreads := nreads s + 1\<rparr>)"

text \<open>
  Modelled from the spec: \<open>SetClock\<close> and \<open>SyncClockWith\<close> of the stream engine, whose source
  is not under \<open>src/\<close>. Setting the video clock pins it to \<open>pts\<close> now, so that it reads \<open>pts\<close>,
  or NaN when its serial is not the packet queue's; syncing the subtitle (external) clock to
  it re-pins that clock when it is invalid or further than the threshold away.
\<close>

definition update_video_pts :: "Player_core \<Rightarrow> double \<Rightarrow> int \<Rightarrow> int \<Rightarrow> Player_core" where
  "update_video_pts s pts' pos' serial' =
     (let (now, s1) = av_gettime_relative s;
          vclock = (if serial' = video_pq_serial s1 then pts' else NaN);
          sclock = subtitle_clock (sync s1);
          sclock' = (if isnan sclock \<or> d_gt (fabs (d_sub sclock vclock)) AV_NOSYNC_THRESHOLD
                     then vclock else sclock)
      in s1\<lparr>sync := (sync s1)\<lparr>video_clock := vclock, subtitle_clock := sclock'\<rparr>,
            video_last_updated := now,
            clock_sets := clock_sets s1 @ [(pts', serial')]\<rparr>)"

text \<open>\<open>stream_toggle_pause\<close>; the pause flags of the stream engines are not part of the
  state.\<close>

definition stream_toggle_pause :: "Player_core \<Rightarrow> Player_core" where
  "stream_toggle_pause s =
     (let s1 = (if paused s then
                  (let (now, t) = av_gettime_relative s
                   in t\<lparr>frame_timer :=
                          d_add (frame_timer t) (d_sub now (video_last_updated t))\<rparr>)
                else s)
      in s1\<lparr>paused := \<not> paused s1\<rparr>)"

definition video_image_display :: "Player_core \<Rightarrow> Player_core" where
  "video_image_display s =
     (let vp = peek_last (pictq s)
      in if bmp vp \<and> render_ok s then s\<lparr>displayed := displayed s @ [vp]\<rparr> else s)"

text \<open>\<open>video_display\<close>: the audio visualisation renders no frame.\<close>

definition video_display :: "Player_core \<Rightarrow> Player_core" where
  "video_display s =
     (if audio_st (sync s) \<and> show_mode s \<noteq> SHOW_MODE_VIDEO then s
      else if video_st (sync s) then video_image_display s
      else s)"

text \<open>
  One pass over the head of the queue, from \<open>peek_last\<close> to the jump: \<open>goto retry\<close> after a
  stale or a dropped frame, \<open>goto display\<close> (or reaching the label) otherwise. The subtitle
  block of the source, which only consumes subtitle frames, is left out.
\<close>

definition video_refresh_pass :: "Player_core \<Rightarrow> Player_core jump" where
  "video_refresh_pass s =
     (let lastvp = peek_last (pictq s); vp = peek (pictq s)
      in if serial vp \<noteq> video_pq_serial s then
           Goto_retry (s\<lparr>pictq := move_to_next (pictq s)\<rparr>)
         else
           (let s1 = (if serial lastvp \<noteq> serial vp then
                        (let (now, t) = av_gettime_relative s in t\<lparr>frame_timer := now\<rparr>)
                      else s)
            in if paused s1 then Goto_display s1
               else
                 (let last_duration = vp_duration (sync s1) lastvp vp;
                      delay = compute_target_delay (sync s1) last_duration;
                      (time, s2) = av_gettime_relative s1
                  in if d_lt time (d_add (frame_timer s2) delay) then
                       Goto_display (s2\<lparr>remaining_time :=
                         FFMIN (d_sub (d_add (frame_timer s2) delay) time) (remaining_time s2)\<rparr>)
                     else
                       (let s3 = s2\<lparr>frame_timer := d_add (frame_timer s2) delay\<rparr>;
                            s4 = (if d_gt delay (Val 0) \<and>
                                     d_gt (d_sub time (frame_timer s3)) AV_SYNC_THRESHOLD_MAX
                                  then s3\<lparr>frame_timer := time\<rparr> else s3);
                            s5 = (if \<not> isnan (pts vp)
                                  then update_video_pts s4 (pts vp) (pos vp) (serial vp) else s4)
                        in if remaining_count (pictq s5) > 1 \<and>
                              (let nextvp = peek_next (pictq s5);
                                   duration' = vp_duration (sync s5) vp nextvp
                               in \<not> step s5 \<and>
                                  (framedrop s5 > 0 \<or>
                                   (framedrop s5 \<noteq> 0 \<and>
                                    get_master_sync_type (sync s5) \<noteq> AV_SYNC_VIDEO_MASTER)) \<and>
                                  d_gt time (d_add (frame_timer s5) duration'))
                           then
                             Goto_retry (s5\<lparr>frame_drops_late := frame_drops_late s5 + 1,
                                            pictq := move_to_next (pictq s5)\<rparr>)
                           else
                             (let s6 = s5\<lparr>pictq := move_to_next (pictq s5)\<rparr>;
                                  s7 = s6\<lparr>force_refresh := True\<rparr>
                              in Goto_display
                                   (if step s7 \<and> \<not> paused s7
                                    then stream_toggle_pause s7 else s7))))))"

text \<open>The \<open>retry\<close> loop: it ends with an empty queue or at \<open>goto display\<close>.\<close>

function video_refresh_retry :: "Player_core \<Rightarrow> Player_core" where
  "video_refresh_retry s =
     (if remaining_count (pictq s) = 0 then s
      else (case video_refresh_pass s of
              Goto_retry t \<Rightarrow> video_refresh_retry t
            | Goto_display t \<Rightarrow> t))"
  by pat_completeness auto
termination
proof (relation "measure (\<lambda>s. remaining_count (pictq s))")
  show "wf (measure (\<lambda>s. remaining_count (pictq s)))" by simp
next
  fix s t
  assume nz: "remaining_count (pictq s) \<noteq> 0" and r: "video_refresh_pass s = Goto_retry t"
  have upd: "pictq (update_video_pts u a b c) = pictq u" for u a b c
    by (simp add: update_video_pts_def av_gettime_relative_def Let_def)
  have "remaining_count (pictq t) = remaining_count (pictq s) - 1"
    using r
    by (auto simp: video_refresh_pass_def av_gettime_relative_def Let_def upd move_to_next_def
        remaining_count_def split: if_splits)
  then show "(t, s) \<in> measure (\<lambda>s. remaining_count (pictq s))"
    using nz by simp
qed

declare video_refresh_retry.simps [simp del]

text \<open>The label \<open>display\<close>.\<close>

definition video_refresh_display :: "Player_core \<Rightarrow> Player_core" where
  "video_refresh_display s =
     (if \<not> display_disable s \<and> force_refresh s \<and> show_mode s = SHOW_MODE_VIDEO \<and>
         rindex_shown (pictq s)
      then video_display s else s)"

text \<open>The block of \<open>video_refresh\<close> that draws the audio visualisation.\<close>

definition video_refresh_visualise :: "Player_core \<Rightarrow> Player_core" where
  "video_refresh_visualise s =
     (if \<not> display_disable s \<and> show_mode s \<noteq> SHOW_MODE_VIDEO \<and> audio_st (sync s) then
        (let (time, t) = av_gettime_relative s;
             t1 = (if force_refresh t \<or> d_lt (d_add (last_vis_time t) (rdftspeed t)) time
                   then (video_display t)\<lparr>last_vis_time := time\<rparr> else t)
         in t1\<lparr>remaining_time :=
                FFMIN (remaining_time t1) (d_sub (d_add (last_vis_time t1) (rdftspeed t1)) time)\<rparr>)
      else s)"

text \<open>\<open>video_refresh\<close>, without the status line it prints at the end.\<close>

definition video_refresh :: "Player_core \<Rightarrow> Player_core" where
  "video_refresh s =
     (let s0 = (if \<not> paused s \<and> get_master_sync_type (sync s) = AV_SYNC_EXTERNAL_CLOCK \<and>
                   realtime s
                then s\<lparr>sync := check_external_clock_speed (sync s)\<rparr> else s);
          s1 = video_refresh_visualise s0;
          s2 = (if video_st (sync s1) then video_refresh_display (video_refresh_retry s1) else s1)
      in s2\<lparr>force_refresh := False\<rparr>)"

section \<open>The video refresh step of \<open>video_state.cpp\<close>\<close>

text \<open>
  The same state for \<open>VideoRefresh\<close>; \<open>vstream_opened'\<close> and \<open>astream_opened'\<close> are what
  \<open>IsOpened()\<close> returns for the two streams (an opened stream has its \<open>AVStream\<close>), and
  \<open>frame_drops_late'\<close> is the counter in \<open>stats_\<close>.
\<close>

record Player =
  sync' :: VideoState
  vstream_opened' :: bool
  astream_opened' :: bool
  paused' :: bool
  step' :: bool
  force_refresh' :: bool
  frame_timer' :: double
  last_vis_time' :: double
  remaining_time' :: double
  display_disable' :: bool
  show_mode' :: ShowMode
  video_frame_queue' :: FrameQueue
  video_pq_serial' :: int
  vstream_last_updated' :: double
  frame_drops_late' :: int
  render_ok' :: bool
  gettime' :: "nat \<Rightarrow> double"
  nreads' :: nat
  displayed' :: "Frame list"
  clock_sets' :: "(double \<times> int) list"

definition av_gettime_relative' :: "Player \<Rightarrow> double \<times> Player" where
  "av_gettime_relative' s = (gettime' s (nreads' s), s\<lparr>nreads' := nreads' s + 1\<rparr>)"

text \<open>Modelled from the spec: \<open>vstream_->SetClock\<close>, as above.\<close>

definition vstream_SetClock :: "Player \<Rightarrow> double \<Rightarrow> int \<Rightarrow> Player" where
  "vstream_SetClock s pts' serial' =
     (let (now, s1) = av_gettime_relative' s;
          vclock = (if serial' = video_pq_serial' s1 then pts' else NaN)
      in s1\<lparr>sync' := (sync' s1)\<lparr>vstream_clock' := vclock\<rparr>,
            vstream_last_updated' := now,
            clock_sets' := clock_sets' s1 @ [(pts', serial')]\<rparr>)"

definition StreamTogglePause :: "Player \<Rightarrow> Player" where
  "StreamTogglePause s =
     (let s1 = (if paused' s then
                  (let (now, t) = av_gettime_relative' s
                   in t\<lparr>frame_timer' :=
                          d_add (frame_timer' t) (d_sub now (vstream_last_updated' t))\<rparr>)
                else s)
      in s1\<lparr>paused' := \<not> paused' s1\<rparr>)"

definition VideoImageDisplay :: "Player \<Rightarrow> Player" where
  "VideoImageDisplay s =
     (let vp = peek_last (video_frame_queue' s)
      in if bmp vp \<and> render_ok' s then s\<lparr>displayed' := displayed' s @ [vp]\<rparr> else s)"

definition VideoDisplay :: "Player \<Rightarrow> Player" where
  "VideoDisplay s =
     (if astream_opened' s \<and> show_mode' s \<noteq> SHOW_MODE_VIDEO then s
      else if vstream_opened' s then VideoImageDisplay s
      else s)"

text \<open>
  One pass of \<open>VideoRefresh\<close> over the head of the queue. \<open>core::VideoFrame::VpDuration\<close> is
  not under \<open>src/\<close> and is a parameter.
\<close>

definition VideoRefresh_pass ::
  "(Frame \<Rightarrow> Frame \<Rightarrow> double \<Rightarrow> double) \<Rightarrow> Player \<Rightarrow> Player jump" where
  "VideoRefresh_pass VpDuration s =
     (let lastvp = peek_last (video_frame_queue' s); vp = peek (video_frame_queue' s)
      in if serial vp \<noteq> video_pq_serial' s then
           Goto_retry (s\<lparr>video_frame_queue' := move_to_next (video_frame_queue' s)\<rparr>)
         else
           (let s1 = (if serial lastvp \<noteq> serial vp then
                        (let (now, t) = av_gettime_relative' s in t\<lparr>frame_timer' := now\<rparr>)
                      else s)
            in if paused' s1 then Goto_display s1
               else
                 (let last_duration = VpDuration lastvp vp (max_frame_duration' (sync' s1));
                      delay = ComputeTargetDelay (sync' s1) last_duration;
                      (time, s2) = av_gettime_relative' s1
                  in if d_lt time (d_add (frame_timer' s2) delay) then
                       Goto_display (s2\<lparr>remaining_time' :=
                         FFMIN (d_sub (d_add (frame_timer' s2) delay) time) (remaining_time' s2)\<rparr>)
                     else
                       (let s3 = s2\<lparr>frame_timer' := d_add (frame_timer' s2) delay\<rparr>;
                            s4 = (if d_gt delay (Val 0) \<and>
                                     d_gt (d_sub time (frame_timer' s3)) AV_SYNC_THRESHOLD_MAX
                                  then s3\<lparr>frame_timer' := time\<rparr> else s3);
                            s5 = (if \<not> isnan (pts vp)
                                  then vstream_SetClock s4 (pts vp) (serial vp) else s4)
                        in if (case PeekNextOrNull (video_frame_queue' s5) of
                                 None \<Rightarrow> False
                               | Some nextvp \<Rightarrow>
                                   (let duration' =
                                          VpDuration vp nextvp (max_frame_duration' (sync' s5))
                                    in \<not> step' s5 \<and>
                                       (framedrop' (sync' s5) > 0 \<or>
                                        (framedrop' (sync' s5) \<noteq> 0 \<and>
                                         GetMasterSyncType (sync' s5) \<noteq>
                                           core_AV_SYNC_VIDEO_MASTER)) \<and>
                                       d_gt time (d_add (frame_timer' s5) duration')))
                           then
                             Goto_retry (s5\<lparr>frame_drops_late' := frame_drops_late' s5 + 1,
                                            video_frame_queue' :=
                                              move_to_next (video_frame_queue' s5)\<rparr>)
                           else
                             (let s6 = s5\<lparr>video_frame_queue' :=
                                            move_to_next (video_frame_queue' s5)\<rparr>;
                                  s7 = s6\<lparr>force_refresh' := True\<rparr>
                              in Goto_display
                                   (if step' s7 \<and> \<not> paused' s7
                                    then StreamTogglePause s7 else s7))))))"

function VideoRefresh_retry ::
  "(Frame \<Rightarrow> Frame \<Rightarrow> double \<Rightarrow> double) \<Rightarrow> Player \<Rightarrow> Player" where
  "VideoRefresh_retry VpDuration s =
     (if is_empty (video_frame_queue' s) then s
      else (case VideoRefresh_pass VpDuration s of
              Goto_retry t \<Rightarrow> VideoRefresh_retry VpDuration t
            | Goto_display t \<Rightarrow> t))"
  by pat_completeness auto
termination
proof (relation "measure (\<lambda>(d, s). fq_size (video_frame_queue' s))")
  show "wf (measure (\<lambda>(d, s). fq_size (video_frame_queue' s)))" by simp
next
  fix VpDuration :: "Frame \<Rightarrow> Frame \<Rightarrow> double \<Rightarrow> double" and s t
  assume nz: "\<not> is_empty (video_frame_queue' s)"
    and r: "VideoRefresh_pass VpDuration s = Goto_retry t"
  have upd: "video_frame_queue' (vstream_SetClock u a c) = video_frame_queue' u" for u a c
    by (simp add: vstream_SetClock_def av_gettime_relative'_def Let_def)
  have "fq_size (video_frame_queue' t) = fq_size (video_frame_queue' s) - 1"
    using r
    by (auto simp: VideoRefresh_pass_def av_gettime_relative'_def Let_def upd move_to_next_def
        split: if_splits)
  then show "((VpDuration, t), (VpDuration, s)) \<in>
               measure (\<lambda>(d, s). fq_size (video_frame_queue' s))"
    using nz by (simp add: is_empty_def)
qed

declare VideoRefresh_retry.simps [simp del]

definition VideoRefresh_display :: "Player \<Rightarrow> Player" where
  "VideoRefresh_display s =
     (if \<not> display_disable' s \<and> force_refresh' s \<and> show_mode' s = SHOW_MODE_VIDEO \<and>
         rindex_shown (video_frame_queue' s)
      then VideoDisplay s else s)"

text \<open>The block of \<open>VideoRefresh\<close> that draws the audio visualisation.\<close>

definition VideoRefresh_visualise :: "Player \<Rightarrow> Player" where
  "VideoRefresh_visualise s =
     (if \<not> display_disable' s \<and> show_mode' s \<noteq> SHOW_MODE_VIDEO \<and> astream_opened' s then
        (let (time, t) = av_gettime_relative' s;
             t1 = (if force_refresh' t \<or> d_lt (last_vis_time' t) time
                   then (VideoDisplay t)\<lparr>last_vis_time' := time\<rparr> else t)
         in t1\<lparr>remaining_time' :=
                FFMIN (remaining_time' t1) (d_sub (last_vis_time' t1) time)\<rparr>)
      else s)"

text \<open>\<open>VideoRefresh\<close>, without the status line.\<close>

definition VideoRefresh ::
  "(Frame \<Rightarrow> Frame \<Rightarrow> double \<Rightarrow> double) \<Rightarrow> Player \<Rightarrow> Player" where
  "VideoRefresh VpDuration s =
     (let s1 = VideoRefresh_visualise s;
          s2 = (if vstream_opened' s1
                then VideoRefresh_display (VideoRefresh_retry VpDuration s1) else s1)
      in s2\<lparr>force_refresh' := False\<rparr>)"

section \<open>Specification-side definitions\<close>

text \<open>
  The definitions of this section follow the words of the specification, not the code; the
  theorems compare the code with them.
\<close>

text \<open>The target delay by cases on the clock difference, as the specification states it.\<close>

definition spec_target_delay :: "real \<Rightarrow> real \<Rightarrow> real" where
  "spec_target_delay d diff =
     (let sync_threshold = max 0.04 (min 0.1 d)
      in if diff \<le> - sync_threshold then max 0 (d + diff)
         else if diff \<ge> sync_threshold \<and> d > 0.1 then d + diff
         else if diff \<ge> sync_threshold then 2 * d
         else d)"

text \<open>The master selection chain as the specification states it.\<close>

definition spec_select_master :: "AvSyncType \<Rightarrow> bool \<Rightarrow> bool \<Rightarrow> AvSyncType" where
  "spec_select_master configured video_open audio_open =
     (if configured = AV_SYNC_VIDEO_MASTER \<and> video_open then AV_SYNC_VIDEO_MASTER
      else if configured = AV_SYNC_AUDIO_MASTER \<and> audio_open then AV_SYNC_AUDIO_MASTER
      else AV_SYNC_EXTERNAL_CLOCK)"

text \<open>
  The buffer states of the specification (a stream is open when its index is not negative)
  and the speed it gives after one check.
\<close>

definition spec_buffers_low :: "VideoState_core \<Rightarrow> bool" where
  "spec_buffers_low vs =
     ((video_stream vs \<ge> 0 \<and> video_nb_packets vs \<le> 2) \<or>
      (audio_stream vs \<ge> 0 \<and> audio_nb_packets vs \<le> 2))"

definition spec_buffers_full :: "VideoState_core \<Rightarrow> bool" where
  "spec_buffers_full vs =
     ((video_stream vs \<ge> 0 \<longrightarrow> video_nb_packets vs > 10) \<and>
      (audio_stream vs \<ge> 0 \<longrightarrow> audio_nb_packets vs > 10))"

definition spec_next_speed :: "VideoState_core \<Rightarrow> real \<Rightarrow> real" where
  "spec_next_speed vs r =
     (if spec_buffers_low vs then max 0.900 (r - 0.001)
      else if spec_buffers_full vs then min 1.010 (r + 0.001)
      else if r < 1 then r + 0.001
      else if r > 1 then r - 0.001
      else r)"

text \<open>The conditions the specification lists for the early drop of a decoded frame.\<close>

definition spec_early_drop :: "VideoState \<Rightarrow> int \<Rightarrow> bool" where
  "spec_early_drop vs frame_pts =
     ((framedrop' vs > 0 \<or>
       (framedrop' vs \<noteq> 0 \<and> GetMasterSyncType vs \<noteq> core_AV_SYNC_VIDEO_MASTER)) \<and>
      frame_pts \<noteq> AV_NOPTS_VALUE \<and>
      (let diff = d_sub (d_mul (vstream_q2d' vs) (Val (of_int frame_pts))) (GetMasterClock vs)
       in \<not> isnan diff \<and> d_lt (fabs diff) (Val 10) \<and>
          d_lt (d_sub diff (frame_last_filter_delay' vs)) (Val 0)) \<and>
      viddec_pkt_serial' vs = vstream_serial' vs \<and>
      video_nb_packets' vs > 0)"

section \<open>Example states\<close>

text \<open>
  A session with both streams open, audio as master and the video clock 0.2 seconds behind
  the audio clock, in both versions of the state, and variations of it.
\<close>

definition st_lag :: VideoState_core where
  "st_lag = \<lparr>av_sync_type = AV_SYNC_AUDIO_MASTER, video_st = True, audio_st = True,
     video_stream = 0, audio_stream = 1, video_clock = Val 9.8, audio_clock = Val 10,
     subtitle_clock = Val 10, max_frame_duration = Val 10, audio_diff_cum = Val 0,
     audio_diff_avg_coef = Val 0.794, audio_diff_threshold = Val 0.02,
     audio_diff_avg_count = 0, audio_src_freq = 44100, subtitle_speed = Val 1,
     video_nb_packets = 5, audio_nb_packets = 5\<rparr>"

definition st_lag' :: VideoState where
  "st_lag' = \<lparr>av_sync_type' = core_AV_SYNC_AUDIO_MASTER, framedrop' = -1,
     vstream_clock' = Val 9.8, astream_clock' = Val 10, max_frame_duration' = Val 10,
     audio_diff_cum' = Val 0, audio_diff_avg_coef' = Val 0.794,
     audio_diff_threshold' = Val 0.02, audio_diff_avg_count' = 0, audio_src_freq' = 44100,
     frame_last_filter_delay' = Val 0, vstream_q2d' = Val (1 / 90000),
     viddec_pkt_serial' = 1, vstream_serial' = 1, video_nb_packets' = 5,
     frame_drops_early' = 0\<rparr>"

definition st_video_cfg_closed :: VideoState_core where
  "st_video_cfg_closed = st_lag\<lparr>av_sync_type := AV_SYNC_VIDEO_MASTER, video_st := False,
     video_stream := - 1\<rparr>"

definition st_lag_other :: VideoState_core where
  "st_lag_other = st_lag\<lparr>av_sync_type := AV_SYNC_EXTERNAL_CLOCK, audio_clock := Val 3,
     audio_diff_cum := Val 0.5, audio_diff_avg_count := 7, subtitle_speed := Val 1.004,
     video_nb_packets := 11\<rparr>"

definition st_lag_other' :: VideoState where
  "st_lag_other' = st_lag'\<lparr>framedrop' := 1, audio_diff_cum' := Val 0.5,
     audio_diff_avg_count' := 7, frame_last_filter_delay' := Val 0.02,
     viddec_pkt_serial' := 4, frame_drops_early' := 12\<rparr>"

definition st_audio_slave :: VideoState_core where
  "st_audio_slave = st_lag\<lparr>av_sync_type := AV_SYNC_VIDEO_MASTER, video_clock := Val 10,
     audio_clock := Val 9, audio_diff_cum := Val (- 5), audio_diff_avg_count := 20\<rparr>"

definition st_audio_slave' :: VideoState where
  "st_audio_slave' = st_lag'\<lparr>av_sync_type' := core_AV_SYNC_VIDEO_MASTER,
     vstream_clock' := Val 10, astream_clock' := Val 9, audio_diff_cum' := Val (- 5),
     audio_diff_avg_count' := 20\<rparr>"

definition st_discont :: VideoState_core where
  "st_discont = st_audio_slave\<lparr>audio_clock := Val 25\<rparr>"

definition st_discont' :: VideoState where
  "st_discont' = st_audio_slave'\<lparr>astream_clock' := NaN\<rparr>"

definition st_starved :: VideoState_core where
  "st_starved = st_lag\<lparr>av_sync_type := AV_SYNC_EXTERNAL_CLOCK, video_nb_packets := 2,
     subtitle_speed := Val 0.9005\<rparr>"

definition fr0 :: Frame where
  "fr0 = \<lparr>serial = 1, pts = Val 2.00, duration = Val 0.04, pos = 0, bmp = True\<rparr>"

definition fr1 :: Frame where
  "fr1 = \<lparr>serial = 1, pts = Val 2.05, duration = Val 0.04, pos = 4096, bmp = True\<rparr>"

definition fr2 :: Frame where
  "fr2 = \<lparr>serial = 2, pts = Val 30, duration = Val 0.04, pos = 8192, bmp = True\<rparr>"

definition fr3 :: Frame where
  "fr3 = \<lparr>serial = 2, pts = NaN, duration = Val 0.04, pos = 12288, bmp = True\<rparr>"

text \<open>
  After a seek: the packet queue's serial is 2; the frame shown last (\<open>fr0\<close>) and the frame at
  the head of the queue (\<open>fr1\<close>) carry serial 1, and \<open>fr2\<close> behind it carries serial 2.
\<close>

definition q_after_seek :: FrameQueue where
  "q_after_seek = \<lparr>queue = [fr0, fr1, fr2], read_index = 1, fq_size = 2, capacity = 3,
     keep_last = True, rindex_shown = True\<rparr>"

definition pl_after_seek :: Player_core where
  "pl_after_seek = \<lparr>sync = st_lag, paused = False, step = False, force_refresh = False,
     realtime = False, frame_timer = Val 100, last_vis_time = Val 0, rdftspeed = Val 0.02,
     remaining_time = Val 0.01, framedrop = - 1, display_disable = False,
     show_mode = SHOW_MODE_VIDEO, pictq = q_after_seek, video_pq_serial = 2,
     video_last_updated = Val 99, frame_drops_late = 0, render_ok = True,
     gettime = (\<lambda>n. Val 100), nreads = 0, displayed = [], clock_sets = []\<rparr>"

definition pl_after_seek' :: Player where
  "pl_after_seek' = \<lparr>sync' = st_lag', vstream_opened' = True, astream_opened' = True,
     paused' = False, step' = False, force_refresh' = False, frame_timer' = Val 100,
     last_vis_time' = Val 0, remaining_time' = Val 0.01, display_disable' = False,
     show_mode' = SHOW_MODE_VIDEO, video_frame_queue' = q_after_seek, video_pq_serial' = 2,
     vstream_last_updated' = Val 99, frame_drops_late' = 0, render_ok' = True,
     gettime' = (\<lambda>n. Val 100), nreads' = 0, displayed' = [], clock_sets' = []\<rparr>"

text \<open>
  The same with the stale frame alone in the queue and a refresh forced before the step, as
  a window event does.
\<close>

definition pl_forced :: Player_core where
  "pl_forced = pl_after_seek\<lparr>force_refresh := True, pictq := q_after_seek\<lparr>fq_size := 1\<rparr>\<rparr>"

definition pl_forced' :: Player where
  "pl_forced' = pl_after_seek'\<lparr>force_refresh' := True,
     video_frame_queue' := q_after_seek\<lparr>fq_size := 1\<rparr>\<rparr>"

text \<open>A stand-in for \<open>core::VideoFrame::VpDuration\<close> in examples.\<close>

definition example_VpDuration :: "Frame \<Rightarrow> Frame \<Rightarrow> double \<Rightarrow> double" where
  "example_VpDuration vp nextvp max_duration =
     (if serial vp = serial nextvp then duration vp else Val 0)"

section \<open>Target delay\<close>

lemma compute_target_delay_slave:
  assumes "get_master_sync_type vs \<noteq> AV_SYNC_VIDEO_MASTER"
    and "d_sub (video_clock vs) (get_master_clock vs) = Val diff"
    and "d_lt (fabs (Val diff)) (max_frame_duration vs)"
  shows "compute_target_delay vs (Val d) = Val (spec_target_delay d diff)"
  using assms unfolding compute_target_delay_def
  by (simp add: Let_def FFMAX_def FFMIN_def AV_SYNC_THRESHOLD_MIN_def AV_SYNC_THRESHOLD_MAX_def
      AV_SYNC_FRAMEDUP_THRESHOLD_def spec_target_delay_def max_def min_def)

lemma ComputeTargetDelay_slave:
  assumes "GetMasterSyncType ws \<noteq> core_AV_SYNC_VIDEO_MASTER"
    and "d_sub (vstream_clock' ws) (GetMasterClock ws) = Val diff"
    and "d_lt (fabs (Val diff)) (max_frame_duration' ws)"
  shows "ComputeTargetDelay ws (Val d) = Val (spec_target_delay d diff)"
  using assms unfolding ComputeTargetDelay_def
  by (simp add: Let_def FFMAX_def FFMIN_def AV_SYNC_THRESHOLD_MIN_def AV_SYNC_THRESHOLD_MAX_def
      AV_SYNC_FRAMEDUP_THRESHOLD_def spec_target_delay_def max_def min_def)

text \<open>
  C1. When video is not the master and the difference \<open>diff\<close> between the video clock and the
  master clock is a number of magnitude below \<open>max_frame_duration\<close>, the target delay for a
  nominal duration \<open>d\<close> is \<open>max 0 (d + diff)\<close> when \<open>diff \<le> - sync_threshold\<close>, \<open>d + diff\<close>
  when \<open>diff \<ge> sync_threshold\<close> and \<open>d > 0.1\<close>, \<open>2 * d\<close> when \<open>diff \<ge> sync_threshold\<close> and
  \<open>d \<le> 0.1\<close>, and \<open>d\<close> otherwise, with \<open>sync_threshold = max 0.04 (min 0.1 d)\<close>; in both
  \<open>compute_target_delay\<close> and \<open>ComputeTargetDelay\<close>.
\<close>

theorem compute_target_delay_cases:
  "(get_master_sync_type vs \<noteq> AV_SYNC_VIDEO_MASTER \<and>
    d_sub (video_clock vs) (get_master_clock vs) = Val diff \<and>
    d_lt (fabs (Val diff)) (max_frame_duration vs) \<longrightarrow>
      compute_target_delay vs (Val d) = Val (spec_target_delay d diff)) \<and>
   (GetMasterSyncType ws \<noteq> core_AV_SYNC_VIDEO_MASTER \<and>
    d_sub (vstream_clock' ws) (GetMasterClock ws) = Val diff \<and>
    d_lt (fabs (Val diff)) (max_frame_duration' ws) \<longrightarrow>
      ComputeTargetDelay ws (Val d) = Val (spec_target_delay d diff))"
  using compute_target_delay_slave ComputeTargetDelay_slave by blast

theorem compute_target_delay_cases_witness:
  "get_master_sync_type st_lag \<noteq> AV_SYNC_VIDEO_MASTER \<and>
   d_sub (video_clock st_lag) (get_master_clock st_lag) = Val (- 0.2) \<and>
   d_lt (fabs (Val (- 0.2))) (max_frame_duration st_lag) \<and>
   compute_target_delay st_lag (Val 0.04) = Val 0 \<and>
   GetMasterSyncType st_lag' \<noteq> core_AV_SYNC_VIDEO_MASTER \<and>
   d_sub (vstream_clock' st_lag') (GetMasterClock st_lag') = Val (- 0.2) \<and>
   d_lt (fabs (Val (- 0.2))) (max_frame_duration' st_lag') \<and>
   ComputeTargetDelay st_lag' (Val 0.04) = Val 0"
  using compute_target_delay_cases [of st_lag "- 0.2" "0.04" st_lag']
  by (simp add: st_lag_def st_lag'_def get_master_sync_type_def get_master_clock_def
      GetMasterSyncType_def GetMasterClock_def spec_target_delay_def)

section \<open>Master selection\<close>

text \<open>
  With video master configured, no video stream and an audio stream open, the chain of the
  specification gives the external clock, and \<open>get_master_sync_type\<close> gives the audio
  master.
\<close>

theorem master_sync_type_counterexample:
  "av_sync_type st_video_cfg_closed = AV_SYNC_VIDEO_MASTER \<and>
   \<not> video_st st_video_cfg_closed \<and> audio_st st_video_cfg_closed \<and>
   spec_select_master (av_sync_type st_video_cfg_closed) (video_st st_video_cfg_closed)
     (audio_st st_video_cfg_closed) = AV_SYNC_EXTERNAL_CLOCK \<and>
   get_master_sync_type st_video_cfg_closed = AV_SYNC_AUDIO_MASTER"
  by (simp add: st_video_cfg_closed_def st_lag_def spec_select_master_def
      get_master_sync_type_def)

text \<open>
  C2, amended. \<open>get_master_sync_type\<close> follows the chain of the specification whenever video
  master is not configured without a video stream; with video master configured, no video
  stream and an audio stream open it returns the audio master. \<open>GetMasterSyncType\<close> returns
  the configured type, which is audio or video master, whatever streams are open.
\<close>

theorem master_sync_type_selection:
  "((av_sync_type vs = AV_SYNC_VIDEO_MASTER \<longrightarrow> video_st vs) \<longrightarrow>
      get_master_sync_type vs = spec_select_master (av_sync_type vs) (video_st vs) (audio_st vs)) \<and>
   (av_sync_type vs = AV_SYNC_VIDEO_MASTER \<and> \<not> video_st vs \<and> audio_st vs \<longrightarrow>
      get_master_sync_type vs = AV_SYNC_AUDIO_MASTER) \<and>
   GetMasterSyncType ws = av_sync_type' ws"
  by (simp add: get_master_sync_type_def spec_select_master_def GetMasterSyncType_def)

theorem master_sync_type_selection_witness:
  "av_sync_type st_lag = AV_SYNC_AUDIO_MASTER \<and> audio_st st_lag \<and>
   get_master_sync_type st_lag = AV_SYNC_AUDIO_MASTER \<and>
   av_sync_type st_video_cfg_closed = AV_SYNC_VIDEO_MASTER \<and>
   \<not> video_st st_video_cfg_closed \<and> audio_st st_video_cfg_closed \<and>
   get_master_sync_type st_video_cfg_closed = AV_SYNC_AUDIO_MASTER \<and>
   GetMasterSyncType st_lag' = core_AV_SYNC_AUDIO_MASTER"
  using master_sync_type_selection [of st_lag st_lag']
    master_sync_type_selection [of st_video_cfg_closed st_lag']
  by (simp add: st_video_cfg_closed_def st_lag_def st_lag'_def spec_select_master_def)

section \<open>A lagging video clock\<close>

text \<open>
  With audio as master and the video clock 0.2 seconds behind, the target delay for a
  nominal duration of 0.04 is 0, not 0.08.
\<close>

theorem lagging_video_counterexample:
  "get_master_sync_type st_lag = AV_SYNC_AUDIO_MASTER \<and> video_st st_lag \<and> audio_st st_lag \<and>
   d_sub (video_clock st_lag) (get_master_clock st_lag) = Val (- 0.2) \<and>
   d_lt (fabs (Val (- 0.2))) (max_frame_duration st_lag) \<and>
   compute_target_delay st_lag (Val 0.04) = Val 0 \<and>
   d_mul (Val 2) (Val 0.04) = Val 0.08 \<and>
   compute_target_delay st_lag (Val 0.04) \<noteq> d_mul (Val 2) (Val 0.04)"
  by (simp add: st_lag_def get_master_sync_type_def get_master_clock_def
      compute_target_delay_def Let_def FFMAX_def FFMIN_def AV_SYNC_THRESHOLD_MIN_def
      AV_SYNC_THRESHOLD_MAX_def AV_SYNC_FRAMEDUP_THRESHOLD_def)

text \<open>
  C3, amended. With audio as master, the video clock 0.2 seconds behind the audio clock and
  \<open>max_frame_duration\<close> above 0.2, the target delay for a nominal duration \<open>d\<close> is
  \<open>max 0 (d - 0.2)\<close>: the delay is shortened, not doubled.
\<close>

theorem lagging_video_shrinks_delay:
  "(get_master_sync_type vs = AV_SYNC_AUDIO_MASTER \<and>
    d_sub (video_clock vs) (audio_clock vs) = Val (- 0.2) \<and>
    d_lt (Val 0.2) (max_frame_duration vs) \<longrightarrow>
      compute_target_delay vs (Val d) = Val (max 0 (d - 0.2))) \<and>
   (GetMasterSyncType ws = core_AV_SYNC_AUDIO_MASTER \<and>
    d_sub (vstream_clock' ws) (astream_clock' ws) = Val (- 0.2) \<and>
    d_lt (Val 0.2) (max_frame_duration' ws) \<longrightarrow>
      ComputeTargetDelay ws (Val d) = Val (max 0 (d - 0.2)))"
proof -
  have lag: "spec_target_delay d (- 0.2) = max 0 (d - 0.2)"
    by (simp add: spec_target_delay_def Let_def max_def min_def)
  have "compute_target_delay vs (Val d) = Val (max 0 (d - 0.2))"
    if "get_master_sync_type vs = AV_SYNC_AUDIO_MASTER"
      and "d_sub (video_clock vs) (audio_clock vs) = Val (- 0.2)"
      and "d_lt (Val 0.2) (max_frame_duration vs)"
    using that lag compute_target_delay_slave [of vs "- 0.2" d]
    by (simp add: get_master_clock_def)
  moreover have "ComputeTargetDelay ws (Val d) = Val (max 0 (d - 0.2))"
    if "GetMasterSyncType ws = core_AV_SYNC_AUDIO_MASTER"
      and "d_sub (vstream_clock' ws) (astream_clock' ws) = Val (- 0.2)"
      and "d_lt (Val 0.2) (max_frame_duration' ws)"
    using that lag ComputeTargetDelay_slave [of ws "- 0.2" d]
    by (simp add: GetMasterClock_def GetMasterSyncType_def)
  ultimately show ?thesis by blast
qed

theorem lagging_video_shrinks_delay_witness:
  "get_master_sync_type st_lag = AV_SYNC_AUDIO_MASTER \<and>
   d_sub (video_clock st_lag) (audio_clock st_lag) = Val (- 0.2) \<and>
   d_lt (Val 0.2) (max_frame_duration st_lag) \<and>
   compute_target_delay st_lag (Val 0.25) = Val 0.05 \<and>
   GetMasterSyncType st_lag' = core_AV_SYNC_AUDIO_MASTER \<and>
   d_sub (vstream_clock' st_lag') (astream_clock' st_lag') = Val (- 0.2) \<and>
   d_lt (Val 0.2) (max_frame_duration' st_lag') \<and>
   ComputeTargetDelay st_lag' (Val 0.25) = Val 0.05"
  using lagging_video_shrinks_delay [of st_lag "0.25" st_lag']
  by (simp add: st_lag_def st_lag'_def get_master_sync_type_def GetMasterSyncType_def)

section \<open>What the target delay depends on\<close>

lemma compute_target_delay_depends:
  assumes "video_clock s = video_clock t"
    and "get_master_clock s = get_master_clock t"
    and "max_frame_duration s = max_frame_duration t"
    and "(get_master_sync_type s = AV_SYNC_VIDEO_MASTER) = (get_master_sync_type t = AV_SYNC_VIDEO_MASTER)"
  shows "compute_target_delay s d = compute_target_delay t d"
  unfolding compute_target_delay_def using assms by simp

lemma ComputeTargetDelay_depends:
  assumes "vstream_clock' s = vstream_clock' t"
    and "GetMasterClock s = GetMasterClock t"
    and "max_frame_duration' s = max_frame_duration' t"
    and "(GetMasterSyncType s = core_AV_SYNC_VIDEO_MASTER) = (GetMasterSyncType t = core_AV_SYNC_VIDEO_MASTER)"
  shows "ComputeTargetDelay s d = ComputeTargetDelay t d"
  unfolding ComputeTargetDelay_def using assms by simp

text \<open>
  C6. Two states that agree on the video clock, the master clock, \<open>max_frame_duration\<close> and
  on whether video is the master give the same target delay for the same nominal duration.
\<close>

theorem compute_target_delay_pure:
  "(video_clock s = video_clock t \<and> get_master_clock s = get_master_clock t \<and>
    max_frame_duration s = max_frame_duration t \<and>
    (get_master_sync_type s = AV_SYNC_VIDEO_MASTER) = (get_master_sync_type t = AV_SYNC_VIDEO_MASTER)
      \<longrightarrow> compute_target_delay s d = compute_target_delay t d) \<and>
   (vstream_clock' u = vstream_clock' w \<and> GetMasterClock u = GetMasterClock w \<and>
    max_frame_duration' u = max_frame_duration' w \<and>
    (GetMasterSyncType u = core_AV_SYNC_VIDEO_MASTER) = (GetMasterSyncType w = core_AV_SYNC_VIDEO_MASTER)
      \<longrightarrow> ComputeTargetDelay u d = ComputeTargetDelay w d)"
  using compute_target_delay_depends [of s t d] ComputeTargetDelay_depends [of u w d] by blast

theorem compute_target_delay_pure_witness:
  "video_clock st_lag = video_clock st_lag_other \<and>
   get_master_clock st_lag = get_master_clock st_lag_other \<and>
   max_frame_duration st_lag = max_frame_duration st_lag_other \<and>
   (get_master_sync_type st_lag = AV_SYNC_VIDEO_MASTER) =
     (get_master_sync_type st_lag_other = AV_SYNC_VIDEO_MASTER) \<and>
   st_lag \<noteq> st_lag_other \<and>
   compute_target_delay st_lag (Val 0.04) = compute_target_delay st_lag_other (Val 0.04) \<and>
   vstream_clock' st_lag' = vstream_clock' st_lag_other' \<and>
   GetMasterClock st_lag' = GetMasterClock st_lag_other' \<and>
   max_frame_duration' st_lag' = max_frame_duration' st_lag_other' \<and>
   (GetMasterSyncType st_lag' = core_AV_SYNC_VIDEO_MASTER) =
     (GetMasterSyncType st_lag_other' = core_AV_SYNC_VIDEO_MASTER) \<and>
   st_lag' \<noteq> st_lag_other' \<and>
   ComputeTargetDelay st_lag' (Val 0.04) = ComputeTargetDelay st_lag_other' (Val 0.04)"
  using compute_target_delay_pure [of st_lag st_lag_other "Val 0.04" st_lag' st_lag_other']
  by (simp add: st_lag_def st_lag_other_def st_lag'_def st_lag_other'_def
      get_master_sync_type_def get_master_clock_def GetMasterSyncType_def GetMasterClock_def)

section \<open>Bounds of the audio correction\<close>

lemma c_div_nonneg: "0 \<le> a \<Longrightarrow> 0 < b \<Longrightarrow> c_div a b = a div b"
  by (cases "a = 0") (simp_all add: c_div_def)

lemma av_clip_bounds: "amin \<le> amax \<Longrightarrow> amin \<le> av_clip a amin amax \<and> av_clip a amin amax \<le> amax"
  by (simp add: av_clip_def)

lemma synchronize_audio_bounds:
  assumes "0 \<le> nb"
  shows "c_div (nb * 90) 100 \<le> fst (synchronize_audio vs nb) \<and>
         fst (synchronize_audio vs nb) \<le> c_div (nb * 110) 100"
proof -
  have b: "nb * 90 div 100 \<le> nb" "nb \<le> nb * 110 div 100" "nb * 90 div 100 \<le> nb * 110 div 100"
    using assms by linarith+
  show ?thesis
    using assms b av_clip_bounds [of "nb * 90 div 100" "nb * 110 div 100"]
    by (simp add: synchronize_audio_def Let_def c_div_nonneg SAMPLE_CORRECTION_PERCENT_MAX_def)
qed

lemma SynchronizeAudio_bounds:
  assumes "0 \<le> nb"
  shows "c_div (nb * 90) 100 \<le> fst (SynchronizeAudio vs nb) \<and>
         fst (SynchronizeAudio vs nb) \<le> c_div (nb * 110) 100"
proof -
  have b: "nb * 90 div 100 \<le> nb" "nb \<le> nb * 110 div 100" "nb * 90 div 100 \<le> nb * 110 div 100"
    using assms by linarith+
  show ?thesis
    using assms b av_clip_bounds [of "nb * 90 div 100" "nb * 110 div 100"]
    by (simp add: SynchronizeAudio_def Let_def c_div_nonneg SAMPLE_CORRECTION_PERCENT_MAX_def)
qed

lemma truncated_bounds_real:
  assumes "0 \<le> nb" and "c_div (nb * 90) 100 \<le> r" and "r \<le> c_div (nb * 110) 100"
  shows "real_of_int nb * 0.9 - 1 < real_of_int r \<and> real_of_int r \<le> real_of_int nb * 1.1"
proof -
  have lo: "nb * 90 div 100 \<le> r" and hi: "r \<le> nb * 110 div 100"
    using assms by (simp_all add: c_div_nonneg)
  have "nb * 90 - 100 < 100 * r" using lo by linarith
  then have "real_of_int (nb * 90 - 100) < real_of_int (100 * r)" by (simp only: of_int_less_iff)
  moreover have "100 * r \<le> nb * 110" using hi by linarith
  then have "real_of_int (100 * r) \<le> real_of_int (nb * 110)" by (simp only: of_int_le_iff)
  ultimately show ?thesis by simp
qed

text \<open>
  For one sample, with the audio clock one second behind the video master and the filter
  warmed up, the wanted count is 0, below \<open>1 * 0.9\<close>.
\<close>

theorem synchronize_audio_counterexample:
  "get_master_sync_type st_audio_slave \<noteq> AV_SYNC_AUDIO_MASTER \<and>
   fst (synchronize_audio st_audio_slave 1) = 0 \<and>
   \<not> (real_of_int 1 * 0.9 \<le> real_of_int (fst (synchronize_audio st_audio_slave 1)))"
  by (simp add: st_audio_slave_def st_lag_def get_master_sync_type_def get_master_clock_def
      synchronize_audio_def Let_def AV_NOSYNC_THRESHOLD_def AUDIO_DIFF_AVG_NB_def
      SAMPLE_CORRECTION_PERCENT_MAX_def c_div_def av_clip_def)

text \<open>
  C4, amended. For a non-negative \<open>nb_samples\<close> whose arithmetic stays inside \<open>int\<close>, the
  wanted count lies between \<open>nb_samples * 90 / 100\<close> and \<open>nb_samples * 110 / 100\<close>, both
  divisions truncating; so it is at most \<open>nb_samples * 1.1\<close> and more than
  \<open>nb_samples * 0.9 - 1\<close>.
\<close>

theorem synchronize_audio_truncated_bounds:
  "(0 \<le> nb \<and> nb * 110 \<le> INT_MAX \<and> nb + 10 * \<bar>audio_src_freq vs\<bar> \<le> INT_MAX \<longrightarrow>
      c_div (nb * 90) 100 \<le> fst (synchronize_audio vs nb) \<and>
      fst (synchronize_audio vs nb) \<le> c_div (nb * 110) 100 \<and>
      real_of_int nb * 0.9 - 1 < real_of_int (fst (synchronize_audio vs nb)) \<and>
      real_of_int (fst (synchronize_audio vs nb)) \<le> real_of_int nb * 1.1) \<and>
   (0 \<le> nb \<and> nb * 110 \<le> INT_MAX \<and> nb + 10 * \<bar>audio_src_freq' ws\<bar> \<le> INT_MAX \<longrightarrow>
      c_div (nb * 90) 100 \<le> fst (SynchronizeAudio ws nb) \<and>
      fst (SynchronizeAudio ws nb) \<le> c_div (nb * 110) 100 \<and>
      real_of_int nb * 0.9 - 1 < real_of_int (fst (SynchronizeAudio ws nb)) \<and>
      real_of_int (fst (SynchronizeAudio ws nb)) \<le> real_of_int nb * 1.1)"
  using synchronize_audio_bounds [of nb vs] SynchronizeAudio_bounds [of nb ws]
    truncated_bounds_real [of nb "fst (synchronize_audio vs nb)"]
    truncated_bounds_real [of nb "fst (SynchronizeAudio ws nb)"]
  by blast

theorem synchronize_audio_truncated_bounds_witness:
  "(0::int) \<le> 1024 \<and> (1024::int) * 110 \<le> INT_MAX \<and>
   1024 + 10 * \<bar>audio_src_freq st_audio_slave\<bar> \<le> INT_MAX \<and>
   fst (synchronize_audio st_audio_slave 1024) = 921 \<and>
   c_div (1024 * 90) 100 = 921 \<and> c_div (1024 * 110) 100 = 1126 \<and>
   1024 + 10 * \<bar>audio_src_freq' st_audio_slave'\<bar> \<le> INT_MAX \<and>
   fst (SynchronizeAudio st_audio_slave' 1024) = 921"
  using synchronize_audio_truncated_bounds [of 1024 st_audio_slave st_audio_slave']
  by (simp add: st_audio_slave_def st_lag_def st_audio_slave'_def st_lag'_def INT_MAX_def
      get_master_sync_type_def get_master_clock_def GetMasterSyncType_def GetMasterClock_def
      synchronize_audio_def SynchronizeAudio_def Let_def AV_NOSYNC_THRESHOLD_def
      AUDIO_DIFF_AVG_NB_def SAMPLE_CORRECTION_PERCENT_MAX_def c_div_def av_clip_def)

section \<open>Reset of the averaging filter\<close>

lemma no_sync_iff:
  "(isnan x \<or> d_ge (fabs x) AV_NOSYNC_THRESHOLD) = (\<not> (\<not> isnan x \<and> d_lt (fabs x) AV_NOSYNC_THRESHOLD))"
  by (cases x) (auto simp: AV_NOSYNC_THRESHOLD_def)

text \<open>
  C7. When audio is not the master and the difference between the audio clock and the master
  clock is NaN or of magnitude at least \<open>AV_NOSYNC_THRESHOLD\<close>, the call returns
  \<open>nb_samples\<close> and the state with \<open>audio_diff_avg_count\<close> and \<open>audio_diff_cum\<close> set to 0,
  nothing else changed.
\<close>

theorem synchronize_audio_reset:
  "(get_master_sync_type vs \<noteq> AV_SYNC_AUDIO_MASTER \<and>
    (isnan (d_sub (audio_clock vs) (get_master_clock vs)) \<or>
     d_ge (fabs (d_sub (audio_clock vs) (get_master_clock vs))) AV_NOSYNC_THRESHOLD) \<longrightarrow>
      synchronize_audio vs nb =
        (nb, vs\<lparr>audio_diff_avg_count := 0, audio_diff_cum := Val 0\<rparr>)) \<and>
   (GetMasterSyncType ws \<noteq> core_AV_SYNC_AUDIO_MASTER \<and>
    (isnan (d_sub (astream_clock' ws) (GetMasterClock ws)) \<or>
     d_ge (fabs (d_sub (astream_clock' ws) (GetMasterClock ws))) AV_NOSYNC_THRESHOLD) \<longrightarrow>
      SynchronizeAudio ws nb =
        (nb, ws\<lparr>audio_diff_avg_count' := 0, audio_diff_cum' := Val 0\<rparr>))"
  by (simp add: synchronize_audio_def SynchronizeAudio_def Let_def no_sync_iff)

theorem synchronize_audio_reset_witness:
  "get_master_sync_type st_discont \<noteq> AV_SYNC_AUDIO_MASTER \<and>
   d_sub (audio_clock st_discont) (get_master_clock st_discont) = Val 15 \<and>
   d_ge (fabs (Val 15)) AV_NOSYNC_THRESHOLD \<and>
   audio_diff_avg_count st_discont = 20 \<and> audio_diff_cum st_discont = Val (- 5) \<and>
   fst (synchronize_audio st_discont 1024) = 1024 \<and>
   audio_diff_avg_count (snd (synchronize_audio st_discont 1024)) = 0 \<and>
   audio_diff_cum (snd (synchronize_audio st_discont 1024)) = Val 0 \<and>
   GetMasterSyncType st_discont' \<noteq> core_AV_SYNC_AUDIO_MASTER \<and>
   isnan (d_sub (astream_clock' st_discont') (GetMasterClock st_discont')) \<and>
   fst (SynchronizeAudio st_discont' 1024) = 1024 \<and>
   audio_diff_avg_count' (snd (SynchronizeAudio st_discont' 1024)) = 0 \<and>
   audio_diff_cum' (snd (SynchronizeAudio st_discont' 1024)) = Val 0"
  using synchronize_audio_reset [of st_discont 1024 st_discont']
  by (simp add: st_discont_def st_discont'_def st_audio_slave_def st_audio_slave'_def
      st_lag_def st_lag'_def get_master_sync_type_def get_master_clock_def
      GetMasterSyncType_def GetMasterClock_def AV_NOSYNC_THRESHOLD_def)

section \<open>One check of the external clock speed\<close>

lemma speed_down:
  "FFMAX EXTERNAL_CLOCK_SPEED_MIN (d_sub (Val r) EXTERNAL_CLOCK_SPEED_STEP) = Val (max 0.900 (r - 0.001))"
  by (simp add: FFMAX_def EXTERNAL_CLOCK_SPEED_MIN_def EXTERNAL_CLOCK_SPEED_STEP_def max_def)

lemma speed_up:
  "FFMIN EXTERNAL_CLOCK_SPEED_MAX (d_add (Val r) EXTERNAL_CLOCK_SPEED_STEP) = Val (min 1.010 (r + 0.001))"
  by (simp add: FFMIN_def EXTERNAL_CLOCK_SPEED_MAX_def EXTERNAL_CLOCK_SPEED_STEP_def min_def)

lemma speed_relax_lt:
  assumes "r < 1"
  shows "d_add (Val r) (d_div (d_mul EXTERNAL_CLOCK_SPEED_STEP (d_sub (Val 1.0) (Val r)))
           (fabs (d_sub (Val 1.0) (Val r)))) = Val (r + 0.001)"
proof -
  have "\<bar>1 - r\<bar> = 1 - r" and "1 - r \<noteq> 0" using assms by simp_all
  then show ?thesis by (simp add: EXTERNAL_CLOCK_SPEED_STEP_def)
qed

lemma speed_relax_gt:
  assumes "r > 1"
  shows "d_add (Val r) (d_div (d_mul EXTERNAL_CLOCK_SPEED_STEP (d_sub (Val 1.0) (Val r)))
           (fabs (d_sub (Val 1.0) (Val r)))) = Val (r - 0.001)"
proof -
  have a: "\<bar>1 - r\<bar> = - (1 - r)" and nz: "1 - r \<noteq> 0" using assms by simp_all
  have "(1 / 1000) * (1 - r) / \<bar>1 - r\<bar> = - (1 / 1000)"
    unfolding a using nz by (simp add: field_simps)
  then show ?thesis using nz by (simp add: EXTERNAL_CLOCK_SPEED_STEP_def)
qed

lemma low_cond:
  "((video_stream vs \<ge> 0 \<and> video_nb_packets vs \<le> EXTERNAL_CLOCK_MIN_FRAMES) \<or>
    (audio_stream vs \<ge> 0 \<and> audio_nb_packets vs \<le> EXTERNAL_CLOCK_MIN_FRAMES)) = spec_buffers_low vs"
  by (simp add: spec_buffers_low_def EXTERNAL_CLOCK_MIN_FRAMES_def)

lemma full_cond:
  "((video_stream vs < 0 \<or> video_nb_packets vs > EXTERNAL_CLOCK_MAX_FRAMES) \<and>
    (audio_stream vs < 0 \<or> audio_nb_packets vs > EXTERNAL_CLOCK_MAX_FRAMES)) = spec_buffers_full vs"
  by (simp add: spec_buffers_full_def EXTERNAL_CLOCK_MAX_FRAMES_def) linarith

lemma check_external_clock_speed_val:
  assumes "subtitle_speed vs = Val r"
  shows "check_external_clock_speed vs = vs\<lparr>subtitle_speed := Val (spec_next_speed vs r)\<rparr>"
proof -
  have same: "vs\<lparr>subtitle_speed := Val r\<rparr> = vs" using assms by simp
  consider (low) "spec_buffers_low vs"
    | (full) "\<not> spec_buffers_low vs" "spec_buffers_full vs"
    | (lt) "\<not> spec_buffers_low vs" "\<not> spec_buffers_full vs" "r < 1"
    | (gt) "\<not> spec_buffers_low vs" "\<not> spec_buffers_full vs" "r > 1"
    | (eq) "\<not> spec_buffers_low vs" "\<not> spec_buffers_full vs" "r = 1"
    by fastforce
  then show ?thesis
  proof cases
    case low
    then show ?thesis
      unfolding check_external_clock_speed_def low_cond assms speed_down
      by (simp add: spec_next_speed_def)
  next
    case full
    then show ?thesis
      unfolding check_external_clock_speed_def low_cond full_cond assms speed_up
      by (simp add: spec_next_speed_def)
  next
    case lt
    then show ?thesis
      unfolding check_external_clock_speed_def low_cond full_cond assms Let_def
      using speed_relax_lt [of r] by (simp add: spec_next_speed_def del: d_add.simps d_div.simps d_mul.simps d_sub.simps fabs.simps)
  next
    case gt
    then show ?thesis
      unfolding check_external_clock_speed_def low_cond full_cond assms Let_def
      using speed_relax_gt [of r] by (simp add: spec_next_speed_def del: d_add.simps d_div.simps d_mul.simps d_sub.simps fabs.simps)
  next
    case eq
    then show ?thesis
      unfolding check_external_clock_speed_def low_cond full_cond assms Let_def
      using same by (simp add: spec_next_speed_def)
  qed
qed

lemma spec_next_speed_range:
  assumes "0.900 \<le> r" and "r \<le> 1.010"
  shows "0.900 \<le> spec_next_speed vs r \<and> spec_next_speed vs r \<le> 1.010 \<and>
         \<bar>spec_next_speed vs r - r\<bar> \<le> 0.001"
  using assms unfolding spec_next_speed_def by (simp add: max_def min_def)

text \<open>
  C8. When the speed of the external clock is a number in \<open>[0.900, 1.010]\<close>,
  \<open>check_external_clock_speed\<close> changes only the speed, the new speed is again in
  \<open>[0.900, 1.010]\<close> and differs from the old one by at most 0.001: it is
  \<open>max 0.900 (speed - 0.001)\<close> when an open stream's packet queue holds at most 2 packets,
  else \<open>min 1.010 (speed + 0.001)\<close> when every open stream's queue holds more than 10, else
  one step of 0.001 toward 1, and unchanged at 1.
\<close>

theorem external_clock_speed_step:
  "subtitle_speed vs = Val r \<and> 0.900 \<le> r \<and> r \<le> 1.010 \<longrightarrow>
     check_external_clock_speed vs = vs\<lparr>subtitle_speed := Val (spec_next_speed vs r)\<rparr> \<and>
     0.900 \<le> spec_next_speed vs r \<and> spec_next_speed vs r \<le> 1.010 \<and>
     \<bar>spec_next_speed vs r - r\<bar> \<le> 0.001"
  using check_external_clock_speed_val [of vs r] spec_next_speed_range [of r vs] by blast

theorem external_clock_speed_step_witness:
  "subtitle_speed st_starved = Val 0.9005 \<and> (0.900::real) \<le> 0.9005 \<and> (0.9005::real) \<le> 1.010 \<and>
   video_stream st_starved = 0 \<and> video_nb_packets st_starved = 2 \<and>
   subtitle_speed (check_external_clock_speed st_starved) = Val 0.900"
proof -
  have h: "subtitle_speed st_starved = Val 0.9005 \<and> (0.900::real) \<le> 0.9005 \<and> (0.9005::real) \<le> 1.010"
    by (simp add: st_starved_def st_lag_def)
  have low: "spec_buffers_low st_starved"
    by (simp add: spec_buffers_low_def st_starved_def st_lag_def)
  have n: "spec_next_speed st_starved 0.9005 = 0.900"
    using low by (simp add: spec_next_speed_def)
  from external_clock_speed_step [of st_starved "0.9005"] h
  have "check_external_clock_speed st_starved =
          st_starved\<lparr>subtitle_speed := Val (spec_next_speed st_starved 0.9005)\<rparr>"
    by blast
  then have "subtitle_speed (check_external_clock_speed st_starved) = Val 0.900"
    using n by simp
  moreover have "video_stream st_starved = 0 \<and> video_nb_packets st_starved = 2"
    by (simp add: st_starved_def st_lag_def)
  ultimately show ?thesis using h by blast
qed

section \<open>Duration between two frames\<close>

text \<open>
  C9. \<open>vp_duration\<close> is 0 when the serials differ. When they agree it is the difference of
  the two \<open>pts\<close>, unless that difference is NaN, not positive or above
  \<open>max_frame_duration\<close>, where it is the first frame's own \<open>duration\<close>.
\<close>

theorem vp_duration_cases:
  "(serial vp \<noteq> serial nextvp \<longrightarrow> vp_duration vs vp nextvp = Val 0) \<and>
   (serial vp = serial nextvp \<and> pts vp = Val a \<and> pts nextvp = Val b \<and>
    max_frame_duration vs = Val m \<longrightarrow>
      vp_duration vs vp nextvp = (if b - a \<le> 0 \<or> b - a > m then duration vp else Val (b - a))) \<and>
   (serial vp = serial nextvp \<and> (isnan (pts vp) \<or> isnan (pts nextvp)) \<longrightarrow>
      vp_duration vs vp nextvp = duration vp)"
proof -
  have "vp_duration vs vp nextvp = duration vp"
    if "serial vp = serial nextvp" and "isnan (pts vp) \<or> isnan (pts nextvp)"
    using that by (cases "pts vp"; cases "pts nextvp") (simp_all add: vp_duration_def)
  then show ?thesis
    by (simp add: vp_duration_def)
qed

theorem vp_duration_cases_witness:
  "serial fr1 \<noteq> serial fr2 \<and> vp_duration st_lag fr1 fr2 = Val 0 \<and>
   serial fr0 = serial fr1 \<and> pts fr0 = Val 2.00 \<and> pts fr1 = Val 2.05 \<and>
   max_frame_duration st_lag = Val 10 \<and> vp_duration st_lag fr0 fr1 = Val 0.05 \<and>
   vp_duration st_lag fr1 fr0 = Val 0.04 \<and>
   serial fr2 = serial fr3 \<and> isnan (pts fr3) \<and> vp_duration st_lag fr2 fr3 = Val 0.04"
  using vp_duration_cases [of fr1 fr2 st_lag 0 0 0]
    vp_duration_cases [of fr0 fr1 st_lag "2.00" "2.05" 10]
    vp_duration_cases [of fr1 fr0 st_lag "2.05" "2.00" 10]
    vp_duration_cases [of fr2 fr3 st_lag 0 0 0]
  by (simp add: fr0_def fr1_def fr2_def fr3_def st_lag_def)

section \<open>Early drop of a decoded frame\<close>

text \<open>
  C10. For a decoded frame, \<open>GetVideoFrame\<close> drops it (returns 0, unreferences it and counts
  the drop) exactly when the conditions of the specification all hold, and passes it on
  unchanged otherwise.
\<close>

theorem early_frame_drop_iff:
  "0 < decoded \<longrightarrow>
     GetVideoFrame vs decoded frame_pts =
       (if spec_early_drop vs frame_pts
        then (0, True, vs\<lparr>frame_drops_early' := frame_drops_early' vs + 1\<rparr>)
        else (decoded, False, vs))"
  by (simp add: GetVideoFrame_def spec_early_drop_def Let_def AV_NOSYNC_THRESHOLD_def)

theorem early_frame_drop_iff_witness:
  "(0::int) < 1 \<and> spec_early_drop st_lag' 810000 \<and>
   GetVideoFrame st_lag' 1 810000 = (0, True, st_lag'\<lparr>frame_drops_early' := 1\<rparr>) \<and>
   \<not> spec_early_drop st_lag' 990000 \<and>
   GetVideoFrame st_lag' 1 990000 = (1, False, st_lag')"
  using early_frame_drop_iff [of 1 st_lag' 810000] early_frame_drop_iff [of 1 st_lag' 990000]
  by (simp add: st_lag'_def spec_early_drop_def GetMasterSyncType_def GetMasterClock_def
      AV_NOPTS_VALUE_def Let_def)

section \<open>Stale frames in the refresh step\<close>

lemma peek_last_move_to_next:
  assumes "read_index f < capacity f"
  shows "peek_last (move_to_next f) = peek f"
proof -
  have "((read_index f + 1) mod capacity f + capacity f - 1) mod capacity f = read_index f"
  proof (cases "read_index f + 1 = capacity f")
    case True
    then show ?thesis using assms by simp
  next
    case False
    then have "read_index f + 1 < capacity f" using assms by simp
    then show ?thesis by simp
  qed
  then show ?thesis by (simp add: peek_last_def peek_def move_to_next_def)
qed

lemma move_to_next_in_range:
  "read_index f < capacity f \<Longrightarrow> read_index (move_to_next f) < capacity (move_to_next f)"
  by (simp add: move_to_next_def)

lemma update_video_pts_fields:
  "pictq (update_video_pts u a b c) = pictq u"
  "displayed (update_video_pts u a b c) = displayed u"
  "force_refresh (update_video_pts u a b c) = force_refresh u"
  "video_pq_serial (update_video_pts u a b c) = video_pq_serial u"
  "display_disable (update_video_pts u a b c) = display_disable u"
  "show_mode (update_video_pts u a b c) = show_mode u"
  "paused (update_video_pts u a b c) = paused u"
  "step (update_video_pts u a b c) = step u"
  "clock_sets (update_video_pts u a b c) = clock_sets u @ [(a, c)]"
  by (simp_all add: update_video_pts_def av_gettime_relative_def Let_def)

lemma stream_toggle_pause_fields:
  "pictq (stream_toggle_pause u) = pictq u"
  "displayed (stream_toggle_pause u) = displayed u"
  "force_refresh (stream_toggle_pause u) = force_refresh u"
  "video_pq_serial (stream_toggle_pause u) = video_pq_serial u"
  "display_disable (stream_toggle_pause u) = display_disable u"
  "show_mode (stream_toggle_pause u) = show_mode u"
  "clock_sets (stream_toggle_pause u) = clock_sets u"
  by (simp_all add: stream_toggle_pause_def av_gettime_relative_def Let_def)

lemma video_refresh_pass_stale:
  assumes "serial (peek (pictq s)) \<noteq> video_pq_serial s"
  shows "video_refresh_pass s = Goto_retry (s\<lparr>pictq := move_to_next (pictq s)\<rparr>)"
  using assms by (simp add: video_refresh_pass_def Let_def)

lemma video_refresh_pass_retry:
  assumes "video_refresh_pass s = Goto_retry t"
  shows "displayed t = displayed s \<and> force_refresh t = force_refresh s \<and>
         video_pq_serial t = video_pq_serial s \<and> display_disable t = display_disable s \<and>
         show_mode t = show_mode s \<and> pictq t = move_to_next (pictq s) \<and>
         (clock_sets t = clock_sets s \<or>
          (\<exists>p. clock_sets t = clock_sets s @ [(p, video_pq_serial s)]))"
  using assms
  by (auto simp: video_refresh_pass_def av_gettime_relative_def Let_def update_video_pts_fields
      split: if_splits)

lemma video_refresh_pass_display:
  assumes "video_refresh_pass s = Goto_display t"
  shows "displayed t = displayed s \<and>
         video_pq_serial t = video_pq_serial s \<and> display_disable t = display_disable s \<and>
         show_mode t = show_mode s \<and>
         serial (peek (pictq s)) = video_pq_serial s \<and>
         ((force_refresh t = force_refresh s \<and> pictq t = pictq s) \<or>
          pictq t = move_to_next (pictq s)) \<and>
         (clock_sets t = clock_sets s \<or>
          (\<exists>p. clock_sets t = clock_sets s @ [(p, video_pq_serial s)]))"
  using assms
  by (auto simp: video_refresh_pass_def av_gettime_relative_def Let_def update_video_pts_fields
      stream_toggle_pause_fields split: if_splits)

lemma video_refresh_retry_inv:
  "read_index (pictq s) < capacity (pictq s) \<Longrightarrow>
   displayed (video_refresh_retry s) = displayed s \<and>
   video_pq_serial (video_refresh_retry s) = video_pq_serial s \<and>
   display_disable (video_refresh_retry s) = display_disable s \<and>
   show_mode (video_refresh_retry s) = show_mode s \<and>
   (force_refresh (video_refresh_retry s) = force_refresh s \<or>
    serial (peek_last (pictq (video_refresh_retry s))) = video_pq_serial s) \<and>
   (\<exists>cs. clock_sets (video_refresh_retry s) = clock_sets s @ cs \<and>
         (\<forall>c\<in>set cs. snd c = video_pq_serial s))"
proof (induction s rule: video_refresh_retry.induct)
  case (1 s)
  show ?case
  proof (cases "remaining_count (pictq s) = 0")
    case True
    then have "video_refresh_retry s = s" by (simp add: video_refresh_retry.simps [of s])
    then show ?thesis by simp
  next
    case False
    show ?thesis
    proof (cases "video_refresh_pass s")
      case (Goto_retry t)
      then have eq: "video_refresh_retry s = video_refresh_retry t"
        using False by (simp add: video_refresh_retry.simps [of s])
      note r = video_refresh_pass_retry [OF Goto_retry]
      have "read_index (pictq t) < capacity (pictq t)"
        using r "1.prems" move_to_next_in_range by simp
      from "1.IH" [OF False Goto_retry this]
      obtain cs where ih: "displayed (video_refresh_retry t) = displayed t"
        "video_pq_serial (video_refresh_retry t) = video_pq_serial t"
        "display_disable (video_refresh_retry t) = display_disable t"
        "show_mode (video_refresh_retry t) = show_mode t"
        "force_refresh (video_refresh_retry t) = force_refresh t \<or>
         serial (peek_last (pictq (video_refresh_retry t))) = video_pq_serial t"
        "clock_sets (video_refresh_retry t) = clock_sets t @ cs"
        "\<forall>c\<in>set cs. snd c = video_pq_serial t"
        by blast
      from r obtain ds where ds: "clock_sets t = clock_sets s @ ds"
        "\<forall>c\<in>set ds. snd c = video_pq_serial s"
        by fastforce
      have "clock_sets (video_refresh_retry s) = clock_sets s @ (ds @ cs)"
        using eq ih(6) ds(1) by simp
      moreover have "\<forall>c\<in>set (ds @ cs). snd c = video_pq_serial s"
        using ds(2) ih(7) r by auto
      ultimately have "\<exists>cs. clock_sets (video_refresh_retry s) = clock_sets s @ cs \<and>
         (\<forall>c\<in>set cs. snd c = video_pq_serial s)" by blast
      then show ?thesis using eq ih(1-5) r by simp
    next
      case (Goto_display t)
      then have eq: "video_refresh_retry s = t"
        using False by (simp add: video_refresh_retry.simps [of s])
      note r = video_refresh_pass_display [OF Goto_display]
      have last: "force_refresh t = force_refresh s \<or>
                  serial (peek_last (pictq t)) = video_pq_serial s"
        using r peek_last_move_to_next [OF "1.prems"] by auto
      from r obtain ds where ds: "clock_sets t = clock_sets s @ ds"
        "\<forall>c\<in>set ds. snd c = video_pq_serial s"
        by fastforce
      then show ?thesis using eq r last by auto
    qed
  qed
qed

lemma video_refresh_visualise_fields:
  "pictq (video_refresh_visualise s) = pictq s"
  "displayed (video_refresh_visualise s) = displayed s"
  "force_refresh (video_refresh_visualise s) = force_refresh s"
  "video_pq_serial (video_refresh_visualise s) = video_pq_serial s"
  "clock_sets (video_refresh_visualise s) = clock_sets s"
  by (simp_all add: video_refresh_visualise_def video_display_def av_gettime_relative_def Let_def)

lemma video_refresh_display_fields:
  "video_pq_serial (video_refresh_display t) = video_pq_serial t"
  "clock_sets (video_refresh_display t) = clock_sets t"
  "displayed (video_refresh_display t) = displayed t \<or>
   (force_refresh t \<and> displayed (video_refresh_display t) = displayed t @ [peek_last (pictq t)])"
  by (simp_all add: video_refresh_display_def video_display_def video_image_display_def Let_def)

lemma video_refresh_effects:
  assumes "read_index (pictq s) < capacity (pictq s)"
  shows "video_pq_serial (video_refresh s) = video_pq_serial s \<and>
         (\<exists>cs. clock_sets (video_refresh s) = clock_sets s @ cs \<and>
               (\<forall>c\<in>set cs. snd c = video_pq_serial s)) \<and>
         (\<not> force_refresh s \<longrightarrow>
            displayed (video_refresh s) = displayed s \<or>
            (\<exists>f. displayed (video_refresh s) = displayed s @ [f] \<and>
                 serial f = video_pq_serial s))"
proof -
  define s0 where "s0 = (if \<not> paused s \<and> get_master_sync_type (sync s) = AV_SYNC_EXTERNAL_CLOCK \<and>
      realtime s then s\<lparr>sync := check_external_clock_speed (sync s)\<rparr> else s)"
  define s1 where "s1 = video_refresh_visualise s0"
  define s2 where "s2 = (if video_st (sync s1)
      then video_refresh_display (video_refresh_retry s1) else s1)"
  have vr: "video_refresh s = s2\<lparr>force_refresh := False\<rparr>"
    by (simp add: video_refresh_def s0_def s1_def s2_def Let_def)
  have f0: "pictq s0 = pictq s" "displayed s0 = displayed s" "force_refresh s0 = force_refresh s"
    "video_pq_serial s0 = video_pq_serial s" "clock_sets s0 = clock_sets s"
    by (simp_all add: s0_def)
  have f1: "pictq s1 = pictq s" "displayed s1 = displayed s" "force_refresh s1 = force_refresh s"
    "video_pq_serial s1 = video_pq_serial s" "clock_sets s1 = clock_sets s"
    by (simp_all add: s1_def video_refresh_visualise_fields f0)
  have "read_index (pictq s1) < capacity (pictq s1)" using assms f1 by simp
  note inv = video_refresh_retry_inv [OF this]
  show ?thesis
  proof (cases "video_st (sync s1)")
    case False
    then have "s2 = s1" by (simp add: s2_def)
    then show ?thesis using vr f1 by simp
  next
    case True
    define t where "t = video_refresh_retry s1"
    have s2: "s2 = video_refresh_display t" using True by (simp add: s2_def t_def)
    from inv obtain cs where t: "displayed t = displayed s" "video_pq_serial t = video_pq_serial s"
      "force_refresh t = force_refresh s \<or> serial (peek_last (pictq t)) = video_pq_serial s"
      "clock_sets t = clock_sets s @ cs" "\<forall>c\<in>set cs. snd c = video_pq_serial s"
      unfolding t_def [symmetric] f1 by blast
    have d: "displayed s2 = displayed s \<or>
             (force_refresh t \<and> displayed s2 = displayed s @ [peek_last (pictq t)])"
      using video_refresh_display_fields(3) [of t] t(1) s2 by simp
    have "\<not> force_refresh s \<longrightarrow>
            displayed s2 = displayed s \<or>
            (\<exists>f. displayed s2 = displayed s @ [f] \<and> serial f = video_pq_serial s)"
      using d t(3) by blast
    moreover have "video_pq_serial s2 = video_pq_serial s"
      using s2 t(2) video_refresh_display_fields(1) by simp
    moreover have "\<exists>cs. clock_sets s2 = clock_sets s @ cs \<and> (\<forall>c\<in>set cs. snd c = video_pq_serial s)"
      using s2 t(4,5) video_refresh_display_fields(2) by simp
    ultimately show ?thesis using vr by simp
  qed
qed

lemma video_refresh_retry_stale:
  assumes "remaining_count (pictq s) \<noteq> 0" and "serial (peek (pictq s)) \<noteq> video_pq_serial s"
  shows "video_refresh_retry s = video_refresh_retry (s\<lparr>pictq := move_to_next (pictq s)\<rparr>)"
  using assms video_refresh_pass_stale [of s] by (simp add: video_refresh_retry.simps [of s])

lemma vstream_SetClock_fields:
  "video_frame_queue' (vstream_SetClock u a c) = video_frame_queue' u"
  "displayed' (vstream_SetClock u a c) = displayed' u"
  "force_refresh' (vstream_SetClock u a c) = force_refresh' u"
  "video_pq_serial' (vstream_SetClock u a c) = video_pq_serial' u"
  "display_disable' (vstream_SetClock u a c) = display_disable' u"
  "show_mode' (vstream_SetClock u a c) = show_mode' u"
  "paused' (vstream_SetClock u a c) = paused' u"
  "step' (vstream_SetClock u a c) = step' u"
  "clock_sets' (vstream_SetClock u a c) = clock_sets' u @ [(a, c)]"
  by (simp_all add: vstream_SetClock_def av_gettime_relative'_def Let_def)

lemma StreamTogglePause_fields:
  "video_frame_queue' (StreamTogglePause u) = video_frame_queue' u"
  "displayed' (StreamTogglePause u) = displayed' u"
  "force_refresh' (StreamTogglePause u) = force_refresh' u"
  "video_pq_serial' (StreamTogglePause u) = video_pq_serial' u"
  "display_disable' (StreamTogglePause u) = display_disable' u"
  "show_mode' (StreamTogglePause u) = show_mode' u"
  "clock_sets' (StreamTogglePause u) = clock_sets' u"
  by (simp_all add: StreamTogglePause_def av_gettime_relative'_def Let_def)

lemma VideoRefresh_pass_stale:
  assumes "serial (peek (video_frame_queue' s)) \<noteq> video_pq_serial' s"
  shows "VideoRefresh_pass VpDuration s =
           Goto_retry (s\<lparr>video_frame_queue' := move_to_next (video_frame_queue' s)\<rparr>)"
  using assms by (simp add: VideoRefresh_pass_def Let_def)

lemma VideoRefresh_pass_retry:
  assumes "VideoRefresh_pass VpDuration s = Goto_retry t"
  shows "displayed' t = displayed' s \<and> force_refresh' t = force_refresh' s \<and>
         video_pq_serial' t = video_pq_serial' s \<and> display_disable' t = display_disable' s \<and>
         show_mode' t = show_mode' s \<and>
         video_frame_queue' t = move_to_next (video_frame_queue' s) \<and>
         (clock_sets' t = clock_sets' s \<or>
          (\<exists>p. clock_sets' t = clock_sets' s @ [(p, video_pq_serial' s)]))"
  using assms
  by (auto simp: VideoRefresh_pass_def av_gettime_relative'_def Let_def vstream_SetClock_fields
      split: if_splits)

lemma VideoRefresh_pass_display:
  assumes "VideoRefresh_pass VpDuration s = Goto_display t"
  shows "displayed' t = displayed' s \<and>
         video_pq_serial' t = video_pq_serial' s \<and> display_disable' t = display_disable' s \<and>
         show_mode' t = show_mode' s \<and>
         serial (peek (video_frame_queue' s)) = video_pq_serial' s \<and>
         ((force_refresh' t = force_refresh' s \<and> video_frame_queue' t = video_frame_queue' s) \<or>
          video_frame_queue' t = move_to_next (video_frame_queue' s)) \<and>
         (clock_sets' t = clock_sets' s \<or>
          (\<exists>p. clock_sets' t = clock_sets' s @ [(p, video_pq_serial' s)]))"
  using assms
  by (auto simp: VideoRefresh_pass_def av_gettime_relative'_def Let_def vstream_SetClock_fields
      StreamTogglePause_fields split: if_splits)

lemma VideoRefresh_retry_inv:
  "read_index (video_frame_queue' s) < capacity (video_frame_queue' s) \<Longrightarrow>
   displayed' (VideoRefresh_retry VpDuration s) = displayed' s \<and>
   video_pq_serial' (VideoRefresh_retry VpDuration s) = video_pq_serial' s \<and>
   display_disable' (VideoRefresh_retry VpDuration s) = display_disable' s \<and>
   show_mode' (VideoRefresh_retry VpDuration s) = show_mode' s \<and>
   (force_refresh' (VideoRefresh_retry VpDuration s) = force_refresh' s \<or>
    serial (peek_last (video_frame_queue' (VideoRefresh_retry VpDuration s))) =
      video_pq_serial' s) \<and>
   (\<exists>cs. clock_sets' (VideoRefresh_retry VpDuration s) = clock_sets' s @ cs \<and>
         (\<forall>c\<in>set cs. snd c = video_pq_serial' s))"
proof (induction VpDuration s rule: VideoRefresh_retry.induct)
  case (1 VpDuration s)
  show ?case
  proof (cases "is_empty (video_frame_queue' s)")
    case True
    then have "VideoRefresh_retry VpDuration s = s"
      by (simp add: VideoRefresh_retry.simps [of VpDuration s])
    then show ?thesis by simp
  next
    case False
    show ?thesis
    proof (cases "VideoRefresh_pass VpDuration s")
      case (Goto_retry t)
      then have eq: "VideoRefresh_retry VpDuration s = VideoRefresh_retry VpDuration t"
        using False by (simp add: VideoRefresh_retry.simps [of VpDuration s])
      note r = VideoRefresh_pass_retry [OF Goto_retry]
      have "read_index (video_frame_queue' t) < capacity (video_frame_queue' t)"
        using r "1.prems" move_to_next_in_range by simp
      from "1.IH" [OF False Goto_retry this]
      obtain cs where ih: "displayed' (VideoRefresh_retry VpDuration t) = displayed' t"
        "video_pq_serial' (VideoRefresh_retry VpDuration t) = video_pq_serial' t"
        "display_disable' (VideoRefresh_retry VpDuration t) = display_disable' t"
        "show_mode' (VideoRefresh_retry VpDuration t) = show_mode' t"
        "force_refresh' (VideoRefresh_retry VpDuration t) = force_refresh' t \<or>
         serial (peek_last (video_frame_queue' (VideoRefresh_retry VpDuration t))) =
           video_pq_serial' t"
        "clock_sets' (VideoRefresh_retry VpDuration t) = clock_sets' t @ cs"
        "\<forall>c\<in>set cs. snd c = video_pq_serial' t"
        by blast
      from r obtain ds where ds: "clock_sets' t = clock_sets' s @ ds"
        "\<forall>c\<in>set ds. snd c = video_pq_serial' s"
        by fastforce
      have "clock_sets' (VideoRefresh_retry VpDuration s) = clock_sets' s @ (ds @ cs)"
        using eq ih(6) ds(1) by simp
      moreover have "\<forall>c\<in>set (ds @ cs). snd c = video_pq_serial' s"
        using ds(2) ih(7) r by auto
      ultimately have "\<exists>cs. clock_sets' (VideoRefresh_retry VpDuration s) = clock_sets' s @ cs \<and>
         (\<forall>c\<in>set cs. snd c = video_pq_serial' s)" by blast
      then show ?thesis using eq ih(1-5) r by simp
    next
      case (Goto_display t)
      then have eq: "VideoRefresh_retry VpDuration s = t"
        using False by (simp add: VideoRefresh_retry.simps [of VpDuration s])
      note r = VideoRefresh_pass_display [OF Goto_display]
      have last: "force_refresh' t = force_refresh' s \<or>
                  serial (peek_last (video_frame_queue' t)) = video_pq_serial' s"
        using r peek_last_move_to_next [OF "1.prems"] by auto
      from r obtain ds where ds: "clock_sets' t = clock_sets' s @ ds"
        "\<forall>c\<in>set ds. snd c = video_pq_serial' s"
        by fastforce
      then show ?thesis using eq r last by auto
    qed
  qed
qed

lemma VideoRefresh_visualise_fields:
  "video_frame_queue' (VideoRefresh_visualise s) = video_frame_queue' s"
  "displayed' (VideoRefresh_visualise s) = displayed' s"
  "force_refresh' (VideoRefresh_visualise s) = force_refresh' s"
  "video_pq_serial' (VideoRefresh_visualise s) = video_pq_serial' s"
  "clock_sets' (VideoRefresh_visualise s) = clock_sets' s"
  by (simp_all add: VideoRefresh_visualise_def VideoDisplay_def av_gettime_relative'_def Let_def)

lemma VideoRefresh_display_fields:
  "video_pq_serial' (VideoRefresh_display t) = video_pq_serial' t"
  "clock_sets' (VideoRefresh_display t) = clock_sets' t"
  "displayed' (VideoRefresh_display t) = displayed' t \<or>
   (force_refresh' t \<and>
    displayed' (VideoRefresh_display t) = displayed' t @ [peek_last (video_frame_queue' t)])"
  by (simp_all add: VideoRefresh_display_def VideoDisplay_def VideoImageDisplay_def Let_def)

lemma VideoRefresh_effects:
  assumes "read_index (video_frame_queue' s) < capacity (video_frame_queue' s)"
  shows "video_pq_serial' (VideoRefresh VpDuration s) = video_pq_serial' s \<and>
         (\<exists>cs. clock_sets' (VideoRefresh VpDuration s) = clock_sets' s @ cs \<and>
               (\<forall>c\<in>set cs. snd c = video_pq_serial' s)) \<and>
         (\<not> force_refresh' s \<longrightarrow>
            displayed' (VideoRefresh VpDuration s) = displayed' s \<or>
            (\<exists>f. displayed' (VideoRefresh VpDuration s) = displayed' s @ [f] \<and>
                 serial f = video_pq_serial' s))"
proof -
  define s1 where "s1 = VideoRefresh_visualise s"
  define s2 where "s2 = (if vstream_opened' s1
      then VideoRefresh_display (VideoRefresh_retry VpDuration s1) else s1)"
  have vr: "VideoRefresh VpDuration s = s2\<lparr>force_refresh' := False\<rparr>"
    by (simp add: VideoRefresh_def s1_def s2_def Let_def)
  have f1: "video_frame_queue' s1 = video_frame_queue' s" "displayed' s1 = displayed' s"
    "force_refresh' s1 = force_refresh' s"
    "video_pq_serial' s1 = video_pq_serial' s" "clock_sets' s1 = clock_sets' s"
    by (simp_all add: s1_def VideoRefresh_visualise_fields)
  have "read_index (video_frame_queue' s1) < capacity (video_frame_queue' s1)"
    using assms f1 by simp
  note inv = VideoRefresh_retry_inv [OF this, of VpDuration]
  show ?thesis
  proof (cases "vstream_opened' s1")
    case False
    then have "s2 = s1" by (simp add: s2_def)
    then show ?thesis using vr f1 by simp
  next
    case True
    define t where "t = VideoRefresh_retry VpDuration s1"
    have s2: "s2 = VideoRefresh_display t" using True by (simp add: s2_def t_def)
    from inv obtain cs where t: "displayed' t = displayed' s"
      "video_pq_serial' t = video_pq_serial' s"
      "force_refresh' t = force_refresh' s \<or>
       serial (peek_last (video_frame_queue' t)) = video_pq_serial' s"
      "clock_sets' t = clock_sets' s @ cs" "\<forall>c\<in>set cs. snd c = video_pq_serial' s"
      unfolding t_def [symmetric] f1 by blast
    have d: "displayed' s2 = displayed' s \<or>
             (force_refresh' t \<and> displayed' s2 = displayed' s @ [peek_last (video_frame_queue' t)])"
      using VideoRefresh_display_fields(3) [of t] t(1) s2 by simp
    have "\<not> force_refresh' s \<longrightarrow>
            displayed' s2 = displayed' s \<or>
            (\<exists>f. displayed' s2 = displayed' s @ [f] \<and> serial f = video_pq_serial' s)"
      using d t(3) by blast
    moreover have "video_pq_serial' s2 = video_pq_serial' s"
      using s2 t(2) VideoRefresh_display_fields(1) by simp
    moreover have "\<exists>cs. clock_sets' s2 = clock_sets' s @ cs \<and>
        (\<forall>c\<in>set cs. snd c = video_pq_serial' s)"
      using s2 t(4,5) VideoRefresh_display_fields(2) by simp
    ultimately show ?thesis using vr by simp
  qed
qed

lemma VideoRefresh_retry_stale:
  assumes "\<not> is_empty (video_frame_queue' s)"
    and "serial (peek (video_frame_queue' s)) \<noteq> video_pq_serial' s"
  shows "VideoRefresh_retry VpDuration s =
           VideoRefresh_retry VpDuration
             (s\<lparr>video_frame_queue' := move_to_next (video_frame_queue' s)\<rparr>)"
  using assms VideoRefresh_pass_stale [of s VpDuration]
  by (simp add: VideoRefresh_retry.simps [of VpDuration s])

lemma video_refresh_after_seek:
  "displayed (video_refresh pl_after_seek) = [fr2] \<and>
   clock_sets (video_refresh pl_after_seek) = [(Val 30, 2)] \<and>
   fq_size (pictq (video_refresh pl_after_seek)) = 0"
  by (simp add: video_refresh_def video_refresh_visualise_def video_refresh_display_def
      video_display_def video_image_display_def update_video_pts_def av_gettime_relative_def
      vp_duration_def compute_target_delay_def get_master_clock_def FFMAX_def FFMIN_def
      AV_SYNC_THRESHOLD_MIN_def AV_SYNC_THRESHOLD_MAX_def AV_SYNC_FRAMEDUP_THRESHOLD_def
      AV_NOSYNC_THRESHOLD_def
      video_refresh_retry.simps video_refresh_pass_def pl_after_seek_def
      q_after_seek_def remaining_count_def peek_def peek_last_def peek_next_def
      move_to_next_def Let_def
      get_master_sync_type_def st_lag_def fr0_def fr1_def fr2_def)

lemma VideoRefresh_after_seek:
  "displayed' (VideoRefresh example_VpDuration pl_after_seek') = [fr2] \<and>
   clock_sets' (VideoRefresh example_VpDuration pl_after_seek') = [(Val 30, 2)] \<and>
   fq_size (video_frame_queue' (VideoRefresh example_VpDuration pl_after_seek')) = 0"
  by (simp add: VideoRefresh_def VideoRefresh_visualise_def VideoRefresh_display_def
      VideoDisplay_def VideoImageDisplay_def vstream_SetClock_def av_gettime_relative'_def
      example_VpDuration_def ComputeTargetDelay_def GetMasterClock_def GetMasterSyncType_def
      FFMAX_def FFMIN_def PeekNextOrNull_def is_empty_def
      AV_SYNC_THRESHOLD_MIN_def AV_SYNC_THRESHOLD_MAX_def AV_SYNC_FRAMEDUP_THRESHOLD_def
      VideoRefresh_retry.simps VideoRefresh_pass_def pl_after_seek'_def
      q_after_seek_def remaining_count_def peek_def peek_last_def peek_next_def
      move_to_next_def Let_def st_lag'_def fr0_def fr1_def fr2_def)

text \<open>
  What the step does get right. A frame at the head of the queue whose serial is not the
  packet queue's is consumed, nothing else in the state changes, and the step retries with
  the next frame. Every call of the video clock's \<open>SetClock\<close> in a step carries the packet
  queue's serial. When no refresh is forced at the start of the step, the step displays at
  most one frame, and that frame carries the packet queue's serial. (The read index of the
  queue is taken inside the ring buffer.)
\<close>

lemma stale_head_skipped:
  "(remaining_count (pictq s) \<noteq> 0 \<and> serial (peek (pictq s)) \<noteq> video_pq_serial s \<longrightarrow>
      video_refresh_pass s = Goto_retry (s\<lparr>pictq := move_to_next (pictq s)\<rparr>) \<and>
      video_refresh_retry s = video_refresh_retry (s\<lparr>pictq := move_to_next (pictq s)\<rparr>)) \<and>
   (read_index (pictq s) < capacity (pictq s) \<longrightarrow>
      video_pq_serial (video_refresh s) = video_pq_serial s \<and>
      (\<exists>cs. clock_sets (video_refresh s) = clock_sets s @ cs \<and>
            (\<forall>c\<in>set cs. snd c = video_pq_serial s)) \<and>
      (\<not> force_refresh s \<longrightarrow>
         displayed (video_refresh s) = displayed s \<or>
         (\<exists>f. displayed (video_refresh s) = displayed s @ [f] \<and>
              serial f = video_pq_serial s))) \<and>
   (\<not> is_empty (video_frame_queue' u) \<and>
    serial (peek (video_frame_queue' u)) \<noteq> video_pq_serial' u \<longrightarrow>
      VideoRefresh_pass VpDuration u =
        Goto_retry (u\<lparr>video_frame_queue' := move_to_next (video_frame_queue' u)\<rparr>) \<and>
      VideoRefresh_retry VpDuration u =
        VideoRefresh_retry VpDuration
          (u\<lparr>video_frame_queue' := move_to_next (video_frame_queue' u)\<rparr>)) \<and>
   (read_index (video_frame_queue' u) < capacity (video_frame_queue' u) \<longrightarrow>
      video_pq_serial' (VideoRefresh VpDuration u) = video_pq_serial' u \<and>
      (\<exists>cs. clock_sets' (VideoRefresh VpDuration u) = clock_sets' u @ cs \<and>
            (\<forall>c\<in>set cs. snd c = video_pq_serial' u)) \<and>
      (\<not> force_refresh' u \<longrightarrow>
         displayed' (VideoRefresh VpDuration u) = displayed' u \<or>
         (\<exists>f. displayed' (VideoRefresh VpDuration u) = displayed' u @ [f] \<and>
              serial f = video_pq_serial' u)))"
  using video_refresh_pass_stale [of s] video_refresh_retry_stale [of s]
    video_refresh_effects [of s]
    VideoRefresh_pass_stale [of u VpDuration] VideoRefresh_retry_stale [of u VpDuration]
    VideoRefresh_effects [of u VpDuration]
  by blast

lemma stale_head_skipped_example:
  "remaining_count (pictq pl_after_seek) = 2 \<and>
   peek (pictq pl_after_seek) = fr1 \<and> serial fr1 = 1 \<and> serial fr2 = 2 \<and>
   video_pq_serial pl_after_seek = 2 \<and>
   read_index (pictq pl_after_seek) < capacity (pictq pl_after_seek) \<and>
   \<not> force_refresh pl_after_seek \<and> displayed pl_after_seek = [] \<and>
   clock_sets pl_after_seek = [] \<and>
   video_refresh_retry pl_after_seek =
     video_refresh_retry (pl_after_seek\<lparr>pictq := move_to_next (pictq pl_after_seek)\<rparr>) \<and>
   displayed (video_refresh pl_after_seek) = [fr2] \<and>
   clock_sets (video_refresh pl_after_seek) = [(Val 30, 2)] \<and>
   \<not> is_empty (video_frame_queue' pl_after_seek') \<and>
   peek (video_frame_queue' pl_after_seek') = fr1 \<and> video_pq_serial' pl_after_seek' = 2 \<and>
   read_index (video_frame_queue' pl_after_seek') < capacity (video_frame_queue' pl_after_seek') \<and>
   \<not> force_refresh' pl_after_seek' \<and> displayed' pl_after_seek' = [] \<and>
   clock_sets' pl_after_seek' = [] \<and>
   VideoRefresh_retry example_VpDuration pl_after_seek' =
     VideoRefresh_retry example_VpDuration
       (pl_after_seek'\<lparr>video_frame_queue' := move_to_next (video_frame_queue' pl_after_seek')\<rparr>) \<and>
   displayed' (VideoRefresh example_VpDuration pl_after_seek') = [fr2] \<and>
   clock_sets' (VideoRefresh example_VpDuration pl_after_seek') = [(Val 30, 2)]"
proof -
  have h: "remaining_count (pictq pl_after_seek) = 2 \<and>
      peek (pictq pl_after_seek) = fr1 \<and> serial fr1 = 1 \<and> serial fr2 = 2 \<and>
      video_pq_serial pl_after_seek = 2 \<and>
      read_index (pictq pl_after_seek) < capacity (pictq pl_after_seek) \<and>
      \<not> force_refresh pl_after_seek \<and> displayed pl_after_seek = [] \<and>
      clock_sets pl_after_seek = []"
    by (simp add: pl_after_seek_def q_after_seek_def remaining_count_def peek_def
        fr1_def fr2_def)
  have h': "\<not> is_empty (video_frame_queue' pl_after_seek') \<and>
      peek (video_frame_queue' pl_after_seek') = fr1 \<and> video_pq_serial' pl_after_seek' = 2 \<and>
      read_index (video_frame_queue' pl_after_seek') <
        capacity (video_frame_queue' pl_after_seek') \<and>
      \<not> force_refresh' pl_after_seek' \<and> displayed' pl_after_seek' = [] \<and>
      clock_sets' pl_after_seek' = []"
    by (simp add: pl_after_seek'_def q_after_seek_def is_empty_def peek_def)
  have stale: "serial (peek (pictq pl_after_seek)) \<noteq> video_pq_serial pl_after_seek"
    "remaining_count (pictq pl_after_seek) \<noteq> 0"
    "serial (peek (video_frame_queue' pl_after_seek')) \<noteq> video_pq_serial' pl_after_seek'"
    using h h' by simp_all
  show ?thesis
    using stale_head_skipped [of pl_after_seek pl_after_seek' example_VpDuration]
      h h' stale video_refresh_after_seek VideoRefresh_after_seek
    by blast
qed

text \<open>
  C5. A frame at the head of the queue whose serial is not the packet queue's should be
  consumed without being displayed. With a refresh forced before the step and such a frame
  alone at the head of the queue (serial 1, the packet queue's serial 2 after a seek), both
  \<open>video_refresh\<close> and \<open>VideoRefresh\<close> consume the frame, find the queue empty and then, at the
  label \<open>display\<close>, draw the queue's last slot, which now holds that frame: the one frame
  the step displays is the stale frame. The label tests \<open>force_refresh\<close> and
  \<open>rindexShown()\<close>, not the serial of the slot it draws.
\<close>

theorem stale_frame_displayed:
  "force_refresh pl_forced \<and> remaining_count (pictq pl_forced) = 1 \<and>
   read_index (pictq pl_forced) = 1 \<and> peek (pictq pl_forced) = fr1 \<and> serial fr1 = 1 \<and>
   video_pq_serial pl_forced = 2 \<and> displayed pl_forced = [] \<and>
   read_index (pictq (video_refresh pl_forced)) = 2 \<and>
   remaining_count (pictq (video_refresh pl_forced)) = 0 \<and>
   clock_sets (video_refresh pl_forced) = [] \<and>
   displayed (video_refresh pl_forced) = [fr1] \<and>
   force_refresh' pl_forced' \<and> \<not> is_empty (video_frame_queue' pl_forced') \<and>
   read_index (video_frame_queue' pl_forced') = 1 \<and>
   peek (video_frame_queue' pl_forced') = fr1 \<and> video_pq_serial' pl_forced' = 2 \<and>
   displayed' pl_forced' = [] \<and>
   read_index (video_frame_queue' (VideoRefresh example_VpDuration pl_forced')) = 2 \<and>
   is_empty (video_frame_queue' (VideoRefresh example_VpDuration pl_forced')) \<and>
   clock_sets' (VideoRefresh example_VpDuration pl_forced') = [] \<and>
   displayed' (VideoRefresh example_VpDuration pl_forced') = [fr1]"
  by (simp add: video_refresh_def video_refresh_visualise_def video_refresh_display_def
      video_display_def video_image_display_def
      video_refresh_retry.simps video_refresh_pass_def pl_forced_def pl_after_seek_def
      VideoRefresh_def VideoRefresh_visualise_def VideoRefresh_display_def
      VideoDisplay_def VideoImageDisplay_def is_empty_def
      VideoRefresh_retry.simps VideoRefresh_pass_def pl_forced'_def pl_after_seek'_def
      q_after_seek_def remaining_count_def peek_def peek_last_def move_to_next_def Let_def
      get_master_sync_type_def st_lag_def fr0_def fr1_def fr2_def)

end
